theory Spec2Isabelle
  imports Main "HOL-Library.Sublist"
begin

section \<open>Strings as the Go standard library treats them\<close>

text \<open>
  A Go string is a byte sequence; it is modelled as \<open>string\<close> (a list of 8-bit
  characters). The helpers below are the functions of package \<open>strings\<close> and
  \<open>strconv\<close> that the runtime-file code calls.
\<close>

text \<open>\<open>strings.Split(s, "\n")\<close>: every newline ends a piece; the last piece may be empty.\<close>

fun splitAcc :: "string \<Rightarrow> string \<Rightarrow> string list" where
  "splitAcc cur [] = [rev cur]"
| "splitAcc cur (c # cs) =
     (if c = CHR 0x0A then rev cur # splitAcc [] cs else splitAcc (c # cur) cs)"

definition splitLines :: "string \<Rightarrow> string list" where
  "splitLines s = splitAcc [] s"

text \<open>
  \<open>unicode.IsSpace\<close>, on the UTF-8 encodings of the white-space code points: the six
  ASCII ones, U+0085, U+00A0, U+1680, U+2000..U+200A, U+2028, U+2029, U+202F, U+205F
  and U+3000.
\<close>

definition spaceSeqs :: "string list" where
  "spaceSeqs =
     [[CHR 0x09], [CHR 0x0A], [CHR 0x0B], [CHR 0x0C], [CHR 0x0D], [CHR 0x20],
      [CHR 0xC2, CHR 0x85], [CHR 0xC2, CHR 0xA0],
      [CHR 0xE1, CHR 0x9A, CHR 0x80],
      [CHR 0xE2, CHR 0x80, CHR 0x80], [CHR 0xE2, CHR 0x80, CHR 0x81],
      [CHR 0xE2, CHR 0x80, CHR 0x82], [CHR 0xE2, CHR 0x80, CHR 0x83],
      [CHR 0xE2, CHR 0x80, CHR 0x84], [CHR 0xE2, CHR 0x80, CHR 0x85],
      [CHR 0xE2, CHR 0x80, CHR 0x86], [CHR 0xE2, CHR 0x80, CHR 0x87],
      [CHR 0xE2, CHR 0x80, CHR 0x88], [CHR 0xE2, CHR 0x80, CHR 0x89],
      [CHR 0xE2, CHR 0x80, CHR 0x8A],
      [CHR 0xE2, CHR 0x80, CHR 0xA8], [CHR 0xE2, CHR 0x80, CHR 0xA9],
      [CHR 0xE2, CHR 0x80, CHR 0xAF], [CHR 0xE2, CHR 0x81, CHR 0x9F],
      [CHR 0xE3, CHR 0x80, CHR 0x80]]"

text \<open>
  Dropping leading pieces drawn from a list of non-empty byte sequences. The fuel is
  the length of the string, which bounds the number of pieces that can be dropped.
\<close>

fun dropSeqs :: "nat \<Rightarrow> string list \<Rightarrow> string \<Rightarrow> string" where
  "dropSeqs 0 seqs s = s"
| "dropSeqs (Suc n) seqs s =
     (case find (\<lambda>p. p \<noteq> [] \<and> prefix p s) seqs of
        None \<Rightarrow> s
      | Some p \<Rightarrow> dropSeqs n seqs (drop (length p) s))"

definition trimLeftSpace :: "string \<Rightarrow> string" where
  "trimLeftSpace s = dropSeqs (length s) spaceSeqs s"

definition trimRightSpace :: "string \<Rightarrow> string" where
  "trimRightSpace s = rev (dropSeqs (length s) (map rev spaceSeqs) (rev s))"

text \<open>\<open>strings.TrimSpace\<close>.\<close>

definition TrimSpace :: "string \<Rightarrow> string" where
  "TrimSpace s = trimRightSpace (trimLeftSpace s)"

text \<open>\<open>strings.HasPrefix\<close> and \<open>strings.TrimPrefix\<close>.\<close>

definition HasPrefix :: "string \<Rightarrow> string \<Rightarrow> bool" where
  "HasPrefix s p = prefix p s"

definition TrimPrefix :: "string \<Rightarrow> string \<Rightarrow> string" where
  "TrimPrefix s p = (if HasPrefix s p then drop (length p) s else s)"

text \<open>
  \<open>strconv.Atoi\<close> for a 64-bit \<open>int\<close>: an optional sign, then one or more decimal
  digits, and the value must fit the type. \<open>None\<close> is the returned error.
\<close>

definition isDigit :: "char \<Rightarrow> bool" where
  "isDigit c = (48 \<le> (of_char c :: nat) \<and> (of_char c :: nat) \<le> 57)"

definition digitVal :: "char \<Rightarrow> int" where
  "digitVal c = int (of_char c) - 48"

definition digitsVal :: "string \<Rightarrow> int" where
  "digitsVal ds = foldl (\<lambda>acc c. acc * 10 + digitVal c) 0 ds"

definition Atoi :: "string \<Rightarrow> int option" where
  "Atoi s =
     (let neg = (s \<noteq> [] \<and> hd s = CHR ''-'');
          ds = (if s \<noteq> [] \<and> (hd s = CHR ''-'' \<or> hd s = CHR ''+'') then tl s else s)
      in if ds = [] \<or> \<not> list_all isDigit ds then None
         else let v = (if neg then - digitsVal ds else digitsVal ds)
              in if v < - (2 ^ 63) \<or> 2 ^ 63 - 1 < v then None else Some v)"

section \<open>Errors\<close>

text \<open>
  One constructor per error the code builds; the comment gives the message.
  \<open>errors.AddStack\<close> keeps the error and its message, so it is the identity here.
\<close>

datatype errno = EPERM | ESRCH | EOTHER

datatype error =
    NotExist                     \<comment> \<open>an \<open>os\<close> error for which \<open>os.IsNotExist\<close> holds\<close>
  | Exist                        \<comment> \<open>an \<open>os\<close> error for which \<open>os.IsExist\<close> holds\<close>
  | OSError                      \<comment> \<open>any other error of a file operation\<close>
  | Errno errno                  \<comment> \<open>a bare \<open>syscall.Errno\<close>\<close>
  | DataDirEmpty                 \<comment> \<open>"data dir is empty"\<close>
  | TagEmpty                     \<comment> \<open>"tag is empty"\<close>
  | PidEmpty                     \<comment> \<open>"pid is empty"\<close>
  | InvalidPid string            \<comment> \<open>"invalid pid %q: %w"\<close>
  | InvalidStartedAt string      \<comment> \<open>"invalid started_at %q: %w"\<close>
  | MissingPid                   \<comment> \<open>"missing pid field"\<close>
  | InvalidPidNumber int         \<comment> \<open>"invalid pid %d"\<close>
  | CheckPid int error           \<comment> \<open>\<open>errors.Annotatef(runErr, "check pid %d", pid)\<close>\<close>
  | AlreadyRunningPid int        \<comment> \<open>"playground already running (pid=%d)"\<close>
  | Starting                     \<comment> \<open>"playground is starting (pid file is being written)"\<close>
  | AlreadyRunningPort int       \<comment> \<open>"playground already running (port=%d)"\<close>
  | ProbeTimedOut int            \<comment> \<open>"playground command server probe timed out (port=%d)"\<close>
  | InvalidPort int              \<comment> \<open>"invalid port %d"\<close>
  | NetTimeout                   \<comment> \<open>a transport error that is a timeout (deadline exceeded)\<close>
  | NetRefused                   \<comment> \<open>a transport error wrapping \<open>ECONNREFUSED\<close>\<close>
  | NetOther                     \<comment> \<open>any other transport error\<close>
  | DecodeError                  \<comment> \<open>the body is not a JSON reply\<close>
  | UnexpectedPing               \<comment> \<open>"unexpected ping response"\<close>
  | UnexpectedStatus nat         \<comment> \<open>"unexpected probe status: %s"\<close>
  | UnexpectedResponse           \<comment> \<open>"unexpected probe response"\<close>
  | TagInUse string error        \<comment> \<open>\<open>errors.Annotatef(err, "tag %q is already in use", tag)\<close>\<close>
  | WaitTimeout                  \<comment> \<open>"timeout waiting for playground to stop"\<close>

text \<open>\<open>os.IsNotExist\<close> and \<open>os.IsExist\<close>.\<close>

fun IsNotExist :: "error \<Rightarrow> bool" where
  "IsNotExist NotExist = True"
| "IsNotExist _ = False"

fun IsExist :: "error \<Rightarrow> bool" where
  "IsExist Exist = True"
| "IsExist _ = False"

section \<open>The PID record\<close>

text \<open>
  Times are integers (nanoseconds on one clock); the zero \<open>time.Time\<close> is \<open>0\<close>.
  \<open>time.Parse(time.RFC3339, _)\<close> is a parameter, \<open>None\<close> being its error.
\<close>

record pidFile =
  pid :: int
  startedAt :: int
  tag :: string

definition zeroPidFile :: pidFile where
  "zeroPidFile = \<lparr>pid = 0, startedAt = 0, tag = []\<rparr>"

text \<open>
  The loop of \<open>readPIDFile\<close> over the lines, carrying \<open>out\<close> and \<open>seenPID\<close>; the
  final check of \<open>seenPID\<close> is the base case.
\<close>

fun readPIDLines ::
  "(string \<Rightarrow> int option) \<Rightarrow> string list \<Rightarrow> pidFile \<Rightarrow> bool \<Rightarrow> error + pidFile" where
  "readPIDLines parseTime [] out seenPID = (if \<not> seenPID then Inl MissingPid else Inr out)"
| "readPIDLines parseTime (l # ls) out seenPID =
     (let line = TrimSpace l in
      if line = [] then readPIDLines parseTime ls out seenPID
      else if HasPrefix line ''pid='' then
        (let raw = TrimSpace (TrimPrefix line ''pid='') in
         if raw = [] then Inl PidEmpty
         else case Atoi raw of
                None \<Rightarrow> Inl (InvalidPid raw)
              | Some p \<Rightarrow> readPIDLines parseTime ls (out\<lparr>pid := p\<rparr>) True)
      else if HasPrefix line ''started_at='' then
        (let raw = TrimSpace (TrimPrefix line ''started_at='') in
         if raw = [] then readPIDLines parseTime ls out seenPID
         else case parseTime raw of
                None \<Rightarrow> Inl (InvalidStartedAt raw)
              | Some t \<Rightarrow> readPIDLines parseTime ls (out\<lparr>startedAt := t\<rparr>) seenPID)
      else if HasPrefix line ''tag='' then
        readPIDLines parseTime ls (out\<lparr>tag := TrimSpace (TrimPrefix line ''tag='')\<rparr>) seenPID
      else readPIDLines parseTime ls out seenPID)"

text \<open>
  \<open>readPIDFile\<close>, given what \<open>os.ReadFile(path)\<close> returned.
\<close>

definition readPIDFile :: "(string \<Rightarrow> int option) \<Rightarrow> error + string \<Rightarrow> error + pidFile" where
  "readPIDFile parseTime rd =
     (case rd of
        Inl err \<Rightarrow> Inl err
      | Inr data \<Rightarrow> readPIDLines parseTime (splitLines data) zeroPidFile False)"

text \<open>
  The reading of a record line by line, stated on the lines rather than on the loop: a
  line belongs to a field when, trimmed, it starts with the field's key; its value is
  what follows the key, trimmed. These are compared with \<open>readPIDFile\<close> below.
\<close>

definition fieldLine :: "string \<Rightarrow> string \<Rightarrow> bool" where
  "fieldLine key l = HasPrefix (TrimSpace l) key"

definition fieldValue :: "string \<Rightarrow> string \<Rightarrow> string" where
  "fieldValue key l = TrimSpace (TrimPrefix (TrimSpace l) key)"

definition fieldValues :: "string \<Rightarrow> string list \<Rightarrow> string list" where
  "fieldValues key ls = map (fieldValue key) (filter (fieldLine key) ls)"

definition startedValues :: "string list \<Rightarrow> string list" where
  "startedValues ls = filter (\<lambda>v. v \<noteq> []) (fieldValues ''started_at='' ls)"

text \<open>
  A line that makes the record unreadable: a \<open>pid=\<close> line whose value is empty or not
  an integer, or a \<open>started_at=\<close> line whose value is not empty and does not parse.
\<close>

definition badLine :: "(string \<Rightarrow> int option) \<Rightarrow> string \<Rightarrow> bool" where
  "badLine parseTime l =
     ((fieldLine ''pid='' l \<and>
        (fieldValue ''pid='' l = [] \<or> Atoi (fieldValue ''pid='' l) = None))
      \<or> (fieldLine ''started_at='' l \<and> fieldValue ''started_at='' l \<noteq> []
           \<and> parseTime (fieldValue ''started_at='' l) = None))"

text \<open>A time parser for examples: it accepts one RFC 3339 text and rejects the rest.\<close>

definition sampleParseTime :: "string \<Rightarrow> int option" where
  "sampleParseTime s = (if s = ''2026-01-13T20:00:00Z'' then Some 1768334400000000000 else None)"

section \<open>Files of the data directory\<close>

text \<open>
  What the file operations of the code can observe of one path. \<open>Special\<close> is a file
  that exists, so that \<open>os.Stat\<close> gives its modification time, but whose content cannot
  be read: a file without read permission, or a directory that is empty. \<open>FullDir\<close> is a
  directory that is not empty: it cannot be read as a file either, and \<open>os.Remove\<close>
  fails on it. \<open>NoAccess\<close> is a path on which every operation fails with an error
  other than not-exist.
\<close>

datatype entry =
    NoEnt
  | File string int
  | Special int
  | FullDir int
  | NoAccess

fun ReadFile :: "entry \<Rightarrow> error + string" where
  "ReadFile NoEnt = Inl NotExist"
| "ReadFile (File data mtime) = Inr data"
| "ReadFile (Special mtime) = Inl OSError"
| "ReadFile (FullDir mtime) = Inl OSError"
| "ReadFile NoAccess = Inl OSError"

text \<open>\<open>os.Stat\<close>, of which the code reads \<open>ModTime()\<close> only.\<close>

fun Stat :: "entry \<Rightarrow> error + int" where
  "Stat NoEnt = Inl NotExist"
| "Stat (File data mtime) = Inr mtime"
| "Stat (Special mtime) = Inr mtime"
| "Stat (FullDir mtime) = Inr mtime"
| "Stat NoAccess = Inl OSError"

text \<open>
  \<open>os.Remove\<close>, which removes a file or an empty directory; every caller discards its
  error, so only the effect is kept. Where the call fails the path stays as it is.
\<close>

fun Remove :: "entry \<Rightarrow> entry" where
  "Remove NoEnt = NoEnt"
| "Remove (File data mtime) = NoEnt"
| "Remove (Special mtime) = NoEnt"
| "Remove (FullDir mtime) = FullDir mtime"
| "Remove NoAccess = NoAccess"

text \<open>
  \<open>os.OpenFile(path, O_WRONLY|O_CREATE|O_EXCL, 0o644)\<close>: \<open>None\<close> when the file was
  created.
\<close>

fun OpenExcl :: "entry \<Rightarrow> error option" where
  "OpenExcl NoEnt = None"
| "OpenExcl (File data mtime) = Some Exist"
| "OpenExcl (Special mtime) = Some Exist"
| "OpenExcl (FullDir mtime) = Some Exist"
| "OpenExcl NoAccess = Some OSError"

text \<open>
  Modelled from the spec: \<open>loadPort(dataDir)\<close> is called by the code but defined in a
  file that is not among the sources of this development. The Port record holds the decimal port
  of the command server; the callers distinguish a missing record, any other failure,
  and a port number (which they compare with zero). The Port record is modelled by
  these three outcomes.
\<close>

datatype portEntry =
    PortNoEnt
  | PortUnreadable
  | PortValue int

fun loadPort :: "portEntry \<Rightarrow> error + int" where
  "loadPort PortNoEnt = Inl NotExist"
| "loadPort PortUnreadable = Inl OSError"
| "loadPort (PortValue p) = Inr p"

text \<open>\<open>os.Remove(portPath)\<close>, its error discarded.\<close>

fun RemovePort :: "portEntry \<Rightarrow> portEntry" where
  "RemovePort p = PortNoEnt"

record dir =
  pidEntry :: entry
  portEntry :: portEntry

definition removePid :: "dir \<Rightarrow> dir" where
  "removePid d = d\<lparr>pidEntry := Remove (pidEntry d)\<rparr>"

definition removePort :: "dir \<Rightarrow> dir" where
  "removePort d = d\<lparr>portEntry := RemovePort (portEntry d)\<rparr>"

definition emptyDir :: dir where
  "emptyDir = \<lparr>pidEntry = NoEnt, portEntry = PortNoEnt\<rparr>"

section \<open>The world outside the data directory\<close>

text \<open>
  \<open>CommandReply\<close> is declared in a file that is not among the sources; the probe reads
  \<open>OK\<close>, \<open>Message\<close> and \<open>Error\<close>.
\<close>

record CommandReply =
  OK :: bool
  Message :: string
  Error :: string

text \<open>
  The outcome of \<open>client.Do(req)\<close>: an error, together with whether \<open>ctx.Err()\<close> is
  non-nil afterwards; or a response, with its status code and what
  \<open>json.NewDecoder(resp.Body).Decode(&reply)\<close> gives on its body.
\<close>

datatype httpResult =
    DoError error bool
  | Response nat "error + CommandReply"

record env =
  selfPid :: int                                    \<comment> \<open>\<open>os.Getpid()\<close>\<close>
  kill0 :: "int \<Rightarrow> errno option"                    \<comment> \<open>\<open>syscall.Kill(pid, 0)\<close>, \<open>None\<close> for nil\<close>
  now :: int                                        \<comment> \<open>\<open>time.Now()\<close>, in nanoseconds\<close>
  nowRFC3339 :: string                              \<comment> \<open>\<open>time.Now().UTC().Format(time.RFC3339)\<close>\<close>
  parseRFC3339 :: "string \<Rightarrow> int option"            \<comment> \<open>\<open>time.Parse(time.RFC3339, _)\<close>\<close>
  mkdirAll :: "string \<Rightarrow> error option"               \<comment> \<open>\<open>utils.MkdirAll(dataDir, 0o755)\<close>\<close>
  writeErr :: "error option"                        \<comment> \<open>the error of \<open>fmt.Fprintf(f, ...)\<close>\<close>
  closeErr :: "error option"                        \<comment> \<open>the error of \<open>f.Close()\<close>\<close>
  httpGet :: "int \<Rightarrow> int \<Rightarrow> string \<Rightarrow> httpResult"   \<comment> \<open>GET of a path on a port of 127.0.0.1, under a context with the given timeout\<close>

definition millisecond :: int where
  "millisecond = 1000000"

definition second :: int where
  "second = 1000000000"

definition pidFileWriteGracePeriod :: int where
  "pidFileWriteGracePeriod = 2 * second"

text \<open>
  \<open>time.Since(t)\<close>: the difference, saturated to the range of \<open>time.Duration\<close> (a
  64-bit count of nanoseconds).
\<close>

definition Since :: "int \<Rightarrow> int \<Rightarrow> int" where
  "Since nowT t = max (- (2 ^ 63)) (min (2 ^ 63 - 1) (nowT - t))"

fun isTimeoutErr :: "error option \<Rightarrow> bool" where
  "isTimeoutErr None = False"
| "isTimeoutErr (Some NetTimeout) = True"
| "isTimeoutErr (Some _) = False"

section \<open>Liveness probes\<close>

definition isPIDRunning :: "env \<Rightarrow> int \<Rightarrow> bool \<times> error option" where
  "isPIDRunning e p =
     (if p \<le> 0 then (False, Some (InvalidPidNumber p))
      else case kill0 e p of
             None \<Rightarrow> (True, None)
           | Some EPERM \<Rightarrow> (True, None)
           | Some ESRCH \<Rightarrow> (False, None)
           | Some err \<Rightarrow> (False, Some (Errno err)))"

text \<open>
  The second half of \<open>probePlaygroundCommandServer\<close>: the GET of \<open>/command\<close>.
\<close>

definition probeCommand :: "env \<Rightarrow> int \<Rightarrow> int \<Rightarrow> bool \<times> error option" where
  "probeCommand e timeout port =
     (case httpGet e timeout port ''/command'' of
        DoError err ctxDone \<Rightarrow> (False, Some err)
      | Response status body \<Rightarrow>
          (case body of
             Inl err \<Rightarrow> (False, Some err)
           | Inr reply \<Rightarrow>
               if status \<noteq> 405 then (False, Some (UnexpectedStatus status))
               else if \<not> OK reply \<and> Error reply = ''method not allowed'' then (True, None)
               else (False, Some UnexpectedResponse)))"

text \<open>
  \<open>probePlaygroundCommandServer(ctx, port)\<close>, the context being given by its timeout,
  together with the paths it requests, in order. Building the two requests cannot fail
  (the method is GET and the URL is a fixed format around a decimal port), and every
  caller passes a non-nil context.
\<close>

definition probeWithRequests ::
  "env \<Rightarrow> int \<Rightarrow> int \<Rightarrow> (bool \<times> error option) \<times> string list" where
  "probeWithRequests e timeout port =
     (if port \<le> 0 then ((False, Some (InvalidPort port)), [])
      else case httpGet e timeout port ''/ping'' of
             DoError err ctxDone \<Rightarrow>
               if ctxDone then ((False, Some err), [''/ping''])
               else (probeCommand e timeout port, [''/ping'', ''/command''])
           | Response status body \<Rightarrow>
               if status = 200 then
                 (case body of
                    Inl err \<Rightarrow> ((False, Some err), [''/ping''])
                  | Inr reply \<Rightarrow>
                      if OK reply \<and> TrimSpace (Message reply) = ''pong''
                      then ((True, None), [''/ping''])
                      else ((False, Some UnexpectedPing), [''/ping'']))
               else (probeCommand e timeout port, [''/ping'', ''/command'']))"

definition probePlaygroundCommandServer :: "env \<Rightarrow> int \<Rightarrow> int \<Rightarrow> bool \<times> error option" where
  "probePlaygroundCommandServer e timeout port = fst (probeWithRequests e timeout port)"

text \<open>
  The three ways a reply matters to the probe, stated on the replies: \<open>/ping\<close> answers
  200 with \<open>{ok:true, message:"pong"}\<close> (the message trimmed); \<open>/ping\<close> does not
  settle the matter, because it answers with another status than 200 or fails while
  the context is still live; \<open>/command\<close> answers 405 with
  \<open>{ok:false, error:"method not allowed"}\<close>.
\<close>

definition pingPong :: "httpResult \<Rightarrow> bool" where
  "pingPong r =
     (case r of
        Response status (Inr reply) \<Rightarrow>
          status = 200 \<and> OK reply \<and> TrimSpace (Message reply) = ''pong''
      | _ \<Rightarrow> False)"

definition pingFallsBack :: "httpResult \<Rightarrow> bool" where
  "pingFallsBack r =
     (case r of
        Response status body \<Rightarrow> status \<noteq> 200
      | DoError err ctxDone \<Rightarrow> \<not> ctxDone)"

definition commandRefusesGet :: "httpResult \<Rightarrow> bool" where
  "commandRefusesGet r =
     (case r of
        Response status (Inr reply) \<Rightarrow>
          status = 405 \<and> \<not> OK reply \<and> Error reply = ''method not allowed''
      | _ \<Rightarrow> False)"

section \<open>Stale cleanup\<close>

text \<open>\<open>stdErrors.Is(err, syscall.ECONNREFUSED)\<close>.\<close>

fun isConnRefused :: "error option \<Rightarrow> bool" where
  "isConnRefused (Some NetRefused) = True"
| "isConnRefused _ = False"

definition probeTimeout :: int where
  "probeTimeout = 500 * millisecond"

text \<open>
  The tail of \<open>cleanupStaleRuntimeFiles\<close>, from the second \<open>loadPort\<close> on: what runs
  when there is no PID record to decide on.
\<close>

definition cleanupPortOnly :: "env \<Rightarrow> dir \<Rightarrow> error option \<times> dir" where
  "cleanupPortOnly e d =
     (case loadPort (portEntry d) of
        Inl err \<Rightarrow> if IsNotExist err then (None, d) else (Some err, d)
      | Inr port \<Rightarrow>
          if port \<le> 0 then (None, d)
          else let (ok, probeErr) = probePlaygroundCommandServer e probeTimeout port in
               if ok \<and> probeErr = None then (Some (AlreadyRunningPort port), d)
               else if isTimeoutErr probeErr then (Some (ProbeTimedOut port), d)
               else if isConnRefused probeErr then (None, removePort d)
               else (None, removePort d))"

text \<open>
  The branch of \<open>cleanupStaleRuntimeFiles\<close> for a PID record that is there (its
  modification time is \<open>mtime\<close>) but could not be read.
\<close>

definition cleanupInvalidPid :: "env \<Rightarrow> dir \<Rightarrow> int \<Rightarrow> error option \<times> dir" where
  "cleanupInvalidPid e d mtime =
     (let age = Since (now e) mtime in
      if 0 \<le> age \<and> age < pidFileWriteGracePeriod then (Some Starting, d)
      else case loadPort (portEntry d) of
             Inl portErr \<Rightarrow> (None, removePort (removePid d))
           | Inr port \<Rightarrow>
               if port > 0 then
                 (let (ok, probeErr) = probePlaygroundCommandServer e probeTimeout port in
                  if ok \<and> probeErr = None then (Some (AlreadyRunningPort port), d)
                  else if isTimeoutErr probeErr then (Some (ProbeTimedOut port), d)
                  else (None, removePort (removePid d)))
               else (None, removePort (removePid d)))"

definition cleanupStaleRuntimeFiles :: "env \<Rightarrow> string \<Rightarrow> dir \<Rightarrow> error option \<times> dir" where
  "cleanupStaleRuntimeFiles e dataDir d =
     (if TrimSpace dataDir = [] then (Some DataDirEmpty, d)
      else case readPIDFile (parseRFC3339 e) (ReadFile (pidEntry d)) of
             Inr pf \<Rightarrow>
               (let (running, runErr) = isPIDRunning e (pid pf) in
                case runErr of
                  Some err \<Rightarrow> (Some (CheckPid (pid pf) err), d)
                | None \<Rightarrow>
                    if running then (Some (AlreadyRunningPid (pid pf)), d)
                    else (None, removePort (removePid d)))
           | Inl err \<Rightarrow>
               if \<not> IsNotExist err then
                 (case Stat (pidEntry d) of
                    Inl statErr \<Rightarrow>
                      if \<not> IsNotExist statErr then (Some statErr, d)
                      else cleanupPortOnly e d
                  | Inr mtime \<Rightarrow> cleanupInvalidPid e d mtime)
               else cleanupPortOnly e d)"

section \<open>Claiming and releasing\<close>

text \<open>\<open>strconv\<close>'s decimal rendering of an integer, as \<open>%d\<close> prints it.\<close>

fun natDigits :: "nat \<Rightarrow> string" where
  "natDigits n =
     (if n < 10 then [char_of (48 + n)]
      else natDigits (n div 10) @ [char_of (48 + n mod 10)])"

definition Itoa :: "int \<Rightarrow> string" where
  "Itoa i = (if i < 0 then CHR ''-'' # natDigits (nat (- i)) else natDigits (nat i))"

text \<open>What \<open>fmt.Fprintf(f, "pid=%d\nstarted_at=%s\ntag=%s\n", ...)\<close> writes.\<close>

definition pidFileContent :: "int \<Rightarrow> string \<Rightarrow> string \<Rightarrow> string" where
  "pidFileContent p started tg =
     ''pid='' @ Itoa p @ [CHR 0x0A] @ ''started_at='' @ started @ [CHR 0x0A]
       @ ''tag='' @ tg @ [CHR 0x0A]"

text \<open>The closure returned by a successful claim: \<open>func() { _ = os.Remove(pidPath) }\<close>.\<close>

definition release :: "dir \<Rightarrow> dir" where
  "release d = removePid d"

text \<open>
  The \<open>for\<close> loop of \<open>claimPlaygroundPIDFile\<close>. Nothing in the code bounds the number of
  rounds, so the loop takes fuel, and \<open>None\<close> is the loop still running when the fuel is
  spent. A file that was created and then could not be written or closed is removed
  again.
\<close>

fun claimLoop ::
  "nat \<Rightarrow> env \<Rightarrow> string \<Rightarrow> string \<Rightarrow> dir \<Rightarrow> ((error + (dir \<Rightarrow> dir)) \<times> dir) option" where
  "claimLoop 0 e dataDir tg d = None"
| "claimLoop (Suc n) e dataDir tg d =
     (case OpenExcl (pidEntry d) of
        None \<Rightarrow>
          (let d' = d\<lparr>pidEntry := File (pidFileContent (selfPid e) (nowRFC3339 e) tg) (now e)\<rparr> in
           case writeErr e of
             Some err \<Rightarrow> Some (Inl err, removePid d')
           | None \<Rightarrow>
               (case closeErr e of
                  Some err \<Rightarrow> Some (Inl err, removePid d')
                | None \<Rightarrow> Some (Inr release, d')))
      | Some err \<Rightarrow>
          if \<not> IsExist err then Some (Inl err, d)
          else case cleanupStaleRuntimeFiles e dataDir d of
                 (Some cerr, d') \<Rightarrow> Some (Inl (TagInUse tg cerr), d')
               | (None, d') \<Rightarrow> claimLoop n e dataDir tg d')"

definition claimPlaygroundPIDFile ::
  "nat \<Rightarrow> env \<Rightarrow> string \<Rightarrow> string \<Rightarrow> dir \<Rightarrow> ((error + (dir \<Rightarrow> dir)) \<times> dir) option" where
  "claimPlaygroundPIDFile fuel e dataDir tg d =
     (if TrimSpace dataDir = [] then Some (Inl DataDirEmpty, d)
      else if TrimSpace tg = [] then Some (Inl TagEmpty, d)
      else case mkdirAll e dataDir of
             Some err \<Rightarrow> Some (Inl err, d)
           | None \<Rightarrow>
               (case cleanupStaleRuntimeFiles e dataDir d of
                  (Some cerr, d') \<Rightarrow> Some (Inl (TagInUse tg cerr), d')
                | (None, d') \<Rightarrow> claimLoop fuel e dataDir tg d'))"

text \<open>
  The message of an error built by \<open>errors.Annotatef\<close>: the annotation, a colon, and the
  message of the cause. The messages of all other errors, and the quoting done by
  \<open>%q\<close>, are parameters.
\<close>

fun errorText :: "(error \<Rightarrow> string) \<Rightarrow> (string \<Rightarrow> string) \<Rightarrow> error \<Rightarrow> string" where
  "errorText leaf quote (TagInUse tg err) =
     ''tag '' @ quote tg @ '' is already in use'' @ '': '' @ errorText leaf quote err"
| "errorText leaf quote (CheckPid p err) =
     ''check pid '' @ Itoa p @ '': '' @ errorText leaf quote err"
| "errorText leaf quote err = leaf err"

text \<open>
  A directory that holds nothing but the PID record written by a claim made in the
  environment \<open>e\<close> with the tag \<open>tg\<close>.
\<close>

definition claimedDir :: "env \<Rightarrow> string \<Rightarrow> dir" where
  "claimedDir e tg =
     emptyDir\<lparr>pidEntry := File (pidFileContent (selfPid e) (nowRFC3339 e) tg) (now e)\<rparr>"

section \<open>Waiting for an instance to stop\<close>

text \<open>
  One round of the loop of \<open>waitPlaygroundStopped\<close>, up to the deadline check:
  \<open>Some d'\<close> when the round returns nil, leaving the directory as \<open>d'\<close>; \<open>None\<close> when
  it falls through to the deadline check.
\<close>

definition waitRound :: "env \<Rightarrow> dir \<Rightarrow> dir option" where
  "waitRound e d =
     (case readPIDFile (parseRFC3339 e) (ReadFile (pidEntry d)) of
        Inl err \<Rightarrow>
          if IsNotExist err then Some d
          else (case Stat (pidEntry d) of
                  Inl statErr \<Rightarrow> if IsNotExist statErr then Some d else None
                | Inr mtime \<Rightarrow>
                    (let age = Since (now e) mtime in
                     if age \<ge> pidFileWriteGracePeriod then
                       (let stillRunning =
                              (case loadPort (portEntry d) of
                                 Inl portErr \<Rightarrow> False
                               | Inr port \<Rightarrow>
                                   if port > 0 then
                                     (let (ok, probeErr) =
                                            probePlaygroundCommandServer e probeTimeout port
                                      in (ok \<and> probeErr = None) \<or> isTimeoutErr probeErr)
                                   else False)
                        in if \<not> stillRunning then Some (removePort (removePid d)) else None)
                     else None))
      | Inr pf \<Rightarrow>
          (let (running, runErr) = isPIDRunning e (pid pf) in
           if runErr = None \<and> \<not> running then Some (removePid d) else None))"

definition pollInterval :: int where
  "pollInterval = 200 * millisecond"

text \<open>
  Other processes change the directory while the loop sleeps, so the loop runs against
  a world that gives, for each instant, the directory and the environment as they are
  then. A round looks at the world as it is at the instant the round begins.
\<close>

definition roundAt :: "(int \<Rightarrow> env \<times> dir) \<Rightarrow> int \<Rightarrow> dir option" where
  "roundAt world t = waitRound ((fst (world t))\<lparr>now := t\<rparr>) (snd (world t))"

text \<open>
  How long things take. The loop reads the clock again after each round
  (\<open>time.Now().After(deadline)\<close>), and the reading of a file, and perhaps a signal and a
  probe, lie between the instant a round begins and that reading. The clock counts
  nanoseconds and a round takes one at least: \<open>roundTime\<close> gives, for a round begun at
  an instant, the nanoseconds it takes beyond the first. \<open>time.Sleep(d)\<close> returns after
  \<open>d\<close> or later: \<open>sleepLag\<close> gives, for a sleep begun at an instant, by how many
  nanoseconds it oversleeps.
\<close>

record timing =
  roundTime :: "int \<Rightarrow> nat"
  sleepLag :: "int \<Rightarrow> nat"

definition roundEnd :: "timing \<Rightarrow> int \<Rightarrow> int" where
  "roundEnd tm t = t + 1 + int (roundTime tm t)"

definition sleepEnd :: "timing \<Rightarrow> int \<Rightarrow> int" where
  "sleepEnd tm t = t + pollInterval + int (sleepLag tm t)"

text \<open>
  The loop itself, a round of which begins at \<open>t\<close>. Beside the error and the directory
  as the call leaves it, the rounds made are returned, in order, each with the instant
  it began and the instant it ended: the instant at which the call returned nil or read
  the clock for the deadline check. The loop ends: a round that does not return is
  followed by a sleep, which moves \<open>t\<close> towards the deadline.
\<close>

fun logRound ::
  "int \<times> int \<Rightarrow> error option \<times> dir \<times> (int \<times> int) list
     \<Rightarrow> error option \<times> dir \<times> (int \<times> int) list" where
  "logRound r (err, d, rs) = (err, d, r # rs)"

function waitLoop ::
  "timing \<Rightarrow> (int \<Rightarrow> env \<times> dir) \<Rightarrow> int \<Rightarrow> int
     \<Rightarrow> error option \<times> dir \<times> (int \<times> int) list" where
  "waitLoop tm world deadline t =
     (case roundAt world t of
        Some d' \<Rightarrow> (None, d', [(t, roundEnd tm t)])
      | None \<Rightarrow>
          if roundEnd tm t > deadline
          then (Some WaitTimeout, snd (world (roundEnd tm t)), [(t, roundEnd tm t)])
          else logRound (t, roundEnd tm t)
                 (waitLoop tm world deadline (sleepEnd tm (roundEnd tm t))))"
  by pat_completeness auto
termination
  by (relation "measure (\<lambda>(tm, world, deadline, t). nat (deadline + pollInterval - t))")
     (auto simp: pollInterval_def millisecond_def roundEnd_def sleepEnd_def)

text \<open>\<open>waitPlaygroundStopped(dataDir, timeout)\<close>, called at the instant \<open>t0\<close>.\<close>

definition waitPlaygroundStopped ::
  "timing \<Rightarrow> (int \<Rightarrow> env \<times> dir) \<Rightarrow> int \<Rightarrow> string \<Rightarrow> int
     \<Rightarrow> error option \<times> dir \<times> (int \<times> int) list" where
  "waitPlaygroundStopped tm world t0 dataDir timeout =
     (if TrimSpace dataDir = [] then (Some DataDirEmpty, snd (world t0), [])
      else let timeout' = (if timeout \<le> 0 then 60 * second else timeout);
               deadline = t0 + timeout'
           in waitLoop tm world deadline t0)"

text \<open>
  Rounds that follow one another as the loop makes them: each lasts as long as the
  timing says, and between the end of one and the beginning of the next lies one sleep
  of 200 ms.
\<close>

fun inCadence :: "timing \<Rightarrow> (int \<times> int) list \<Rightarrow> bool" where
  "inCadence tm [] = True"
| "inCadence tm [r] = (snd r = roundEnd tm (fst r))"
| "inCadence tm (r # r' # rs) =
     (snd r = roundEnd tm (fst r) \<and> fst r' = sleepEnd tm (snd r) \<and> inCadence tm (r' # rs))"

section \<open>Killing a process or its group\<close>

text \<open>
  \<open>killProcessOrGroup\<close> of the Unix build. \<open>syscall.Getpgid\<close> and \<open>syscall.Kill\<close> are
  parameters; the result is the returned error together with the calls of
  \<open>syscall.Kill\<close> that were made, as pairs of target and signal.
\<close>

definition killProcessOrGroup ::
  "(int \<Rightarrow> errno + int) \<Rightarrow> (int \<Rightarrow> int \<Rightarrow> errno option) \<Rightarrow> int \<Rightarrow> int
     \<Rightarrow> errno option \<times> (int \<times> int) list" where
  "killProcessOrGroup Getpgid Kill p sig =
     (if p \<le> 0 \<or> sig = 0 then (None, [])
      else case Getpgid p of
             Inr pgid \<Rightarrow>
               if pgid = p then (Kill (- p) sig, [(- p, sig)])
               else (Kill p sig, [(p, sig)])
           | Inl err \<Rightarrow> (Kill p sig, [(p, sig)]))"

text \<open>\<open>killProcessOrGroup\<close> of the Windows build: it ignores both arguments.\<close>

definition killProcessOrGroupWindows :: "int \<Rightarrow> int \<Rightarrow> errno option \<times> (int \<times> int) list" where
  "killProcessOrGroupWindows p sig = (None, [])"

section \<open>The progress UI and its barrier\<close>

text \<open>
  The UI of package \<open>progress\<close> in plain mode: clients put events on the buffered
  channel \<open>eventsCh\<close>, and one engine goroutine (\<open>runPlain\<close>) takes them off in order
  and handles each with \<open>processPlainEvent\<close>. An event carries its type and payload;
  the types other than \<open>print_lines\<close> and \<open>sync\<close> are not told apart here, and the
  time stamps are left out.
\<close>

datatype Mode = ModeTTY | ModePlain | ModeOff

datatype Event =
    EventPrintLines "string list"
  | EventSync nat
  | EventOther string

fun isSync :: "Event \<Rightarrow> bool" where
  "isSync (EventSync i) = True"
| "isSync _ = False"

definition defaultEventBuffer :: nat where
  "defaultEventBuffer = 4096"

text \<open>
  The state of a UI. A channel that is only ever closed is a flag (\<open>closeCh\<close>,
  \<open>doneCh\<close>, and the wait channels of the syncs: \<open>released\<close> holds the ids whose
  channel has been closed). \<open>eventLog\<close> is the sequence of events encoded to the log
  and \<open>rendered\<close> the sequence applied to the engine state and rendered.
\<close>

record UI =
  mode :: Mode
  closed :: bool
  closeCh :: bool
  doneCh :: bool
  nextID :: nat
  syncWaiters :: "nat set"
  released :: "nat set"
  eventsCh :: "Event list"
  writerBuf :: string
  hasEventLog :: bool
  eventLog :: "Event list"
  rendered :: "Event list"

text \<open>\<open>New\<close> with \<open>Mode: ModePlain\<close> and an \<open>EventLog\<close>.\<close>

definition newPlainUI :: UI where
  "newPlainUI =
     \<lparr>mode = ModePlain, closed = False, closeCh = False, doneCh = False, nextID = 0,
      syncWaiters = {}, released = {}, eventsCh = [], writerBuf = [], hasEventLog = True,
      eventLog = [], rendered = []\<rparr>"

text \<open>
  A send on \<open>eventsCh\<close>. A step that cannot go on yet (the channel is full) is \<open>None\<close>:
  the goroutine stays where it is and tries again when it is scheduled next.
\<close>

definition send :: "Event \<Rightarrow> UI \<Rightarrow> UI option" where
  "send ev u =
     (if length (eventsCh u) < defaultEventBuffer
      then Some (u\<lparr>eventsCh := eventsCh u @ [ev]\<rparr>)
      else None)"

text \<open>
  \<open>emitForced\<close>: nothing in mode off or once \<open>closeCh\<close> is closed, a send otherwise.
  \<open>emit\<close> is the same after its check of \<open>closed\<close>. (When the channel has room and
  \<open>closeCh\<close> is closed during the second \<open>select\<close>, Go may take either case; here the
  event is dropped.)
\<close>

definition emitForced :: "Event \<Rightarrow> UI \<Rightarrow> UI option" where
  "emitForced ev u =
     (if mode u = ModeOff then Some u
      else if closeCh u then Some u
      else send ev u)"

definition emit :: "Event \<Rightarrow> UI \<Rightarrow> UI option" where
  "emit ev u = (if closed u then Some u else emitForced ev u)"

text \<open>\<open>strings.TrimSuffix\<close>, and \<open>uiWriter.drainBufferedLine\<close>.\<close>

definition TrimSuffix :: "string \<Rightarrow> string \<Rightarrow> string" where
  "TrimSuffix s suf = (if suffix suf s then take (length s - length suf) s else s)"

definition drainBufferedLine :: "UI \<Rightarrow> string \<times> UI" where
  "drainBufferedLine u = (TrimSuffix (writerBuf u) [CHR 0x0D], u\<lparr>writerBuf := []\<rparr>)"

text \<open>
  The loop of \<open>uiWriter.Write\<close> over the bytes written: the complete lines, and what
  stays in the buffer.
\<close>

fun writeLoop :: "string \<Rightarrow> string \<Rightarrow> string list \<times> string" where
  "writeLoop buf [] = ([], buf)"
| "writeLoop buf (c # cs) =
     (if c = CHR 0x0A
      then (let (ls, b) = writeLoop [] cs in (TrimSuffix buf [CHR 0x0D] # ls, b))
      else writeLoop (buf @ [c]) cs)"

definition Write :: "string \<Rightarrow> UI \<Rightarrow> UI option" where
  "Write p u =
     (if closed u \<or> mode u = ModeOff then Some u
      else let (ls, b) = writeLoop (writerBuf u) p in
           if ls \<noteq> [] then emit (EventPrintLines ls) (u\<lparr>writerBuf := b\<rparr>)
           else Some (u\<lparr>writerBuf := b\<rparr>))"

definition removeSyncWaiter :: "nat \<Rightarrow> UI \<Rightarrow> UI" where
  "removeSyncWaiter i u = (if i = 0 then u else u\<lparr>syncWaiters := syncWaiters u - {i}\<rparr>)"

definition fulfillSync :: "nat \<Rightarrow> UI \<Rightarrow> UI" where
  "fulfillSync i u =
     (if i = 0 then u
      else if i \<in> syncWaiters u
           then u\<lparr>syncWaiters := syncWaiters u - {i}, released := insert i (released u)\<rparr>
           else u)"

definition processPlainEvent :: "Event \<Rightarrow> UI \<Rightarrow> UI" where
  "processPlainEvent ev u =
     (let u1 = (if hasEventLog u \<and> \<not> isSync ev then u\<lparr>eventLog := eventLog u @ [ev]\<rparr> else u)
      in case ev of
           EventSync i \<Rightarrow> fulfillSync i u1
         | _ \<Rightarrow> u1\<lparr>rendered := rendered u1 @ [ev]\<rparr>)"

text \<open>
  One turn of the loop of \<open>runPlain\<close>: the next event if there is one; the end of the
  engine when \<open>closeCh\<close> is closed and no event is left; nothing otherwise.
\<close>

definition runPlain :: "UI \<Rightarrow> UI option" where
  "runPlain u =
     (if doneCh u \<or> mode u \<noteq> ModePlain then None
      else case eventsCh u of
             ev # rest \<Rightarrow> Some (processPlainEvent ev (u\<lparr>eventsCh := rest\<rparr>))
           | [] \<Rightarrow> if closeCh u then Some (u\<lparr>doneCh := True\<rparr>) else None)"

text \<open>
  A call of \<open>Sync\<close> runs beside the other goroutines, so it is taken apart at the
  points where they can come in between, and a program counter says where the call
  stands: at its entry, before the check of \<open>closed\<close> and of the mode; about to drain
  the writer's buffer; about to emit the drained line; about to allocate its id and
  register its waiter; about to send its sync event; waiting for one of its three
  channels; or returned. The deferred \<open>removeSyncWaiter\<close> runs at each return after the
  registration.
\<close>

datatype SyncPC =
    SyncEntry
  | SyncDraining
  | SyncFlushing string
  | SyncRegistering
  | SyncSending nat
  | SyncWaiting nat
  | SyncReturned

definition Sync :: "SyncPC \<Rightarrow> UI \<Rightarrow> (SyncPC \<times> UI) option" where
  "Sync pc u =
     (case pc of
        SyncEntry \<Rightarrow>
          if closed u \<or> mode u = ModeOff then Some (SyncReturned, u)
          else Some (SyncDraining, u)
      | SyncDraining \<Rightarrow>
          (let (line, u1) = drainBufferedLine u in
           if line \<noteq> [] then Some (SyncFlushing line, u1) else Some (SyncRegistering, u1))
      | SyncFlushing line \<Rightarrow>
          (case emit (EventPrintLines [line]) u of
             None \<Rightarrow> None
           | Some u1 \<Rightarrow> Some (SyncRegistering, u1))
      | SyncRegistering \<Rightarrow>
          (let i = nextID u + 1 in
           Some (SyncSending i, u\<lparr>nextID := i, syncWaiters := insert i (syncWaiters u)\<rparr>))
      | SyncSending i \<Rightarrow>
          if closeCh u then Some (SyncReturned, removeSyncWaiter i u)
          else (case send (EventSync i) u of
                  None \<Rightarrow> None
                | Some u1 \<Rightarrow> Some (SyncWaiting i, u1))
      | SyncWaiting i \<Rightarrow>
          if i \<in> released u \<or> doneCh u \<or> closeCh u
          then Some (SyncReturned, removeSyncWaiter i u)
          else None
      | SyncReturned \<Rightarrow> None)"

text \<open>
  \<open>Group\<close>, the other user of \<open>nextID\<close>: it takes an id and emits the event that adds
  the group.
\<close>

definition Group :: "UI \<Rightarrow> UI option" where
  "Group u =
     (if closed u then Some u
      else emit (EventOther ''group_add'') (u\<lparr>nextID := nextID u + 1\<rparr>))"

text \<open>
  \<open>PrintLines\<close>, taken apart like \<open>Sync\<close>: the check of \<open>closed\<close>; the draining of the
  writer's buffer, whose line goes in front of the lines given; the emit of the block.
  (A UI made by \<open>New\<close> always has its writer, so the check for a missing writer is left
  out.)
\<close>

datatype PrintPC =
    PrintEntry
  | PrintDraining "string list"
  | PrintEmitting "string list"
  | PrintReturned

definition PrintLines :: "string list \<Rightarrow> PrintPC \<Rightarrow> UI \<Rightarrow> (PrintPC \<times> UI) option" where
  "PrintLines lines pc u =
     (case pc of
        PrintEntry \<Rightarrow>
          if closed u then Some (PrintReturned, u) else Some (PrintDraining lines, u)
      | PrintDraining ls \<Rightarrow>
          (let (line, u1) = drainBufferedLine u;
               outLines = (if line \<noteq> [] then [line] else []) @ ls
           in if outLines = [] then Some (PrintReturned, u1)
              else Some (PrintEmitting outLines, u1))
      | PrintEmitting outLines \<Rightarrow>
          (case emit (EventPrintLines outLines) u of
             None \<Rightarrow> None
           | Some u1 \<Rightarrow> Some (PrintReturned, u1))
      | PrintReturned \<Rightarrow> None)"

text \<open>
  \<open>Close\<close>, likewise: the swap of \<open>closed\<close>; the flush of the buffered line; the closing
  of \<open>closeCh\<close>; the wait for the engine.
\<close>

datatype ClosePC = CloseEntry | CloseFlushing | CloseClosing | CloseWaiting | CloseReturned

definition Close :: "ClosePC \<Rightarrow> UI \<Rightarrow> (ClosePC \<times> UI) option" where
  "Close pc u =
     (case pc of
        CloseEntry \<Rightarrow>
          if closed u then Some (CloseReturned, u)
          else Some (CloseFlushing, u\<lparr>closed := True\<rparr>)
      | CloseFlushing \<Rightarrow>
          (let (line, u1) = drainBufferedLine u in
           case (if line \<noteq> [] then emitForced (EventPrintLines [line]) u1 else Some u1) of
             None \<Rightarrow> None
           | Some u2 \<Rightarrow> Some (CloseClosing, u2))
      | CloseClosing \<Rightarrow> Some (CloseWaiting, u\<lparr>closeCh := True\<rparr>)
      | CloseWaiting \<Rightarrow> if doneCh u then Some (CloseReturned, u) else None
      | CloseReturned \<Rightarrow> None)"

text \<open>
  The goroutines together. Calls of \<open>Sync\<close> are numbered, and so are calls of
  \<open>PrintLines\<close>; call 0 of \<open>Sync\<close> is the controller's.
\<close>

record system =
  ui :: UI
  syncPC :: "nat \<Rightarrow> SyncPC"
  printPC :: "nat \<Rightarrow> PrintPC"
  closePC :: ClosePC
  portRecord :: bool

definition initSystem :: system where
  "initSystem =
     \<lparr>ui = newPlainUI, syncPC = (\<lambda>k. SyncEntry), printPC = (\<lambda>k. PrintEntry),
      closePC = CloseEntry, portRecord = False\<rparr>"

text \<open>
  Modelled from the spec: \<open>listenAndServeHTTP\<close>, the function of the controller that
  creates the Port record, is not among the sources. By the specification the Port
  record is written only after all prior progress output is flushed, and the flush
  primitive is \<open>UI.Sync\<close>: the controller calls \<open>Sync\<close> (call 0) and, when that call
  has returned, writes the Port record. This is the step that writes it; until then the
  controller is held up.
\<close>

definition publishPort :: "system \<Rightarrow> system" where
  "publishPort s = (if syncPC s 0 = SyncReturned then s\<lparr>portRecord := True\<rparr> else s)"

text \<open>
  What a goroutine may do next: a whole \<open>Write\<close> on the UI's writer; a call of
  \<open>Group\<close>; an \<open>emit\<close> of an event, as \<open>ReplayEvent\<close> and the handles of groups and tasks
  do; the next step of a call of \<open>PrintLines\<close> (the lines are those the call was made
  with); the next step of a call of \<open>Sync\<close>; a turn of the engine; the next step of
  \<open>Close\<close>; the controller's writing of the Port record. A step that cannot go on yet
  leaves the state as it is.
\<close>

datatype action =
    ActWrite string
  | ActGroup
  | ActEmit Event
  | ActPrintLines nat "string list"
  | ActSync nat
  | ActEngine
  | ActClose
  | ActPort

definition step :: "system \<Rightarrow> action \<Rightarrow> system" where
  "step s a =
     (case a of
        ActWrite p \<Rightarrow> (case Write p (ui s) of None \<Rightarrow> s | Some u \<Rightarrow> s\<lparr>ui := u\<rparr>)
      | ActGroup \<Rightarrow> (case Group (ui s) of None \<Rightarrow> s | Some u \<Rightarrow> s\<lparr>ui := u\<rparr>)
      | ActEmit ev \<Rightarrow> (case emit ev (ui s) of None \<Rightarrow> s | Some u \<Rightarrow> s\<lparr>ui := u\<rparr>)
      | ActPrintLines k lines \<Rightarrow>
          (case PrintLines lines (printPC s k) (ui s) of
             None \<Rightarrow> s
           | Some (pc, u) \<Rightarrow> s\<lparr>ui := u, printPC := (printPC s)(k := pc)\<rparr>)
      | ActSync k \<Rightarrow>
          (case Sync (syncPC s k) (ui s) of
             None \<Rightarrow> s
           | Some (pc, u) \<Rightarrow> s\<lparr>ui := u, syncPC := (syncPC s)(k := pc)\<rparr>)
      | ActEngine \<Rightarrow> (case runPlain (ui s) of None \<Rightarrow> s | Some u \<Rightarrow> s\<lparr>ui := u\<rparr>)
      | ActClose \<Rightarrow>
          (case Close (closePC s) (ui s) of
             None \<Rightarrow> s
           | Some (pc, u) \<Rightarrow> s\<lparr>ui := u, closePC := pc\<rparr>)
      | ActPort \<Rightarrow> publishPort s)"

definition run :: "action list \<Rightarrow> system" where
  "run as = foldl step initSystem as"

text \<open>
  Four schedules. In the first the start-up writes a line and a partial line, the
  controller's \<open>Sync\<close> runs through while the engine handles the three events, and the
  Port record is written. In the second a call of \<open>PrintLines\<close> finds a partial line in
  the buffer. In the third, \<open>Close\<close> has begun in another goroutine when the controller
  calls \<open>Sync\<close>. In the fourth, a partial line is in the buffer when the controller
  calls \<open>Sync\<close>, and a second call of \<open>Sync\<close> in another goroutine drains the buffer
  first and has not yet emitted the line when the controller's call has run through.
\<close>

definition startupSchedule :: "action list" where
  "startupSchedule =
     [ActWrite ''banner\<newline>'', ActWrite ''starting'',
      ActSync 0, ActSync 0, ActSync 0, ActSync 0, ActSync 0,
      ActEngine, ActEngine, ActEngine, ActSync 0, ActPort]"

definition printSchedule :: "action list" where
  "printSchedule =
     [ActWrite ''starting'',
      ActPrintLines 0 [''up''], ActPrintLines 0 [''up''], ActPrintLines 0 [''up''],
      ActEngine]"

definition closeRaceSchedule :: "action list" where
  "closeRaceSchedule = [ActWrite ''banner\<newline>'', ActClose, ActSync 0, ActPort]"

definition drainRaceSchedule :: "action list" where
  "drainRaceSchedule =
     [ActWrite ''starting'', ActSync 0, ActSync 1, ActSync 1,
      ActSync 0, ActSync 0, ActSync 0, ActEngine, ActSync 0, ActPort]"

section \<open>Text without blanks\<close>

text \<open>
  Printable ASCII other than the space: what \<open>%d\<close> prints and what an RFC 3339 time
  consists of. \<open>strings.TrimSpace\<close> leaves such text alone, and it holds no newline.
\<close>

definition plainChar :: "char \<Rightarrow> bool" where
  "plainChar c = (33 \<le> (of_char c :: nat) \<and> (of_char c :: nat) \<le> 126)"

definition plainText :: "string \<Rightarrow> bool" where
  "plainText s = list_all plainChar s"

section \<open>Sample worlds\<close>

text \<open>
  Concrete servers, environments and directories, on which the definitions are run.
\<close>

definition pong :: CommandReply where
  "pong = \<lparr>OK = True, Message = ''pong'', Error = []\<rparr>"

definition methodNotAllowed :: CommandReply where
  "methodNotAllowed = \<lparr>OK = False, Message = [], Error = ''method not allowed''\<rparr>"

text \<open>Nothing listens on the port.\<close>

definition httpRefused :: "int \<Rightarrow> int \<Rightarrow> string \<Rightarrow> httpResult" where
  "httpRefused timeout port path = DoError NetRefused False"

text \<open>The server does not answer within the timeout.\<close>

definition httpSlow :: "int \<Rightarrow> int \<Rightarrow> string \<Rightarrow> httpResult" where
  "httpSlow timeout port path = DoError NetTimeout True"

text \<open>A command server of the current version.\<close>

definition httpCurrent :: "int \<Rightarrow> int \<Rightarrow> string \<Rightarrow> httpResult" where
  "httpCurrent timeout port path =
     (if path = ''/ping'' then Response 200 (Inr pong)
      else if path = ''/command'' then Response 405 (Inr methodNotAllowed)
      else Response 404 (Inl DecodeError))"

text \<open>A command server that has no \<open>/ping\<close> yet.\<close>

definition httpLegacy :: "int \<Rightarrow> int \<Rightarrow> string \<Rightarrow> httpResult" where
  "httpLegacy timeout port path =
     (if path = ''/command'' then Response 405 (Inr methodNotAllowed)
      else Response 404 (Inl DecodeError))"

text \<open>A command server whose \<open>/ping\<close> handler fails with status 500.\<close>

definition httpPingBroken :: "int \<Rightarrow> int \<Rightarrow> string \<Rightarrow> httpResult" where
  "httpPingBroken timeout port path =
     (if path = ''/command'' then Response 405 (Inr methodNotAllowed)
      else Response 500 (Inl DecodeError))"

text \<open>Some other HTTP server: it answers every path with 200 and an unrelated JSON object.\<close>

definition httpOther :: "int \<Rightarrow> int \<Rightarrow> string \<Rightarrow> httpResult" where
  "httpOther timeout port path = Response 200 (Inr \<lparr>OK = False, Message = [], Error = []\<rparr>)"

text \<open>
  An environment at 2026-01-13T20:00:00Z: the calling process is 4242, which is the
  only live process; file operations succeed; nothing listens on any port.
\<close>

definition sampleNow :: int where
  "sampleNow = 1768334400000000000"

definition sampleEnv :: env where
  "sampleEnv =
     \<lparr>selfPid = 4242,
      kill0 = (\<lambda>p. if p = 4242 then None else Some ESRCH),
      now = sampleNow,
      nowRFC3339 = ''2026-01-13T20:00:00Z'',
      parseRFC3339 = sampleParseTime,
      mkdirAll = (\<lambda>path. None),
      writeErr = None,
      closeErr = None,
      httpGet = httpRefused\<rparr>"

definition sampleDataDir :: string where
  "sampleDataDir = ''/home/u/.tiup/data/demo''"

definition withServer :: "(int \<Rightarrow> int \<Rightarrow> string \<Rightarrow> httpResult) \<Rightarrow> env" where
  "withServer srv = sampleEnv\<lparr>httpGet := srv\<rparr>"

text \<open>
  An environment in which process 1 belongs to another user: signalling it fails with
  \<open>EPERM\<close>.
\<close>

definition foreignEnv :: env where
  "foreignEnv = sampleEnv\<lparr>kill0 := (\<lambda>p. if p = 1 then Some EPERM else Some ESRCH)\<rparr>"

definition anHourAgo :: int where
  "anHourAgo = sampleNow - 3600 * second"

text \<open>A directory that holds a Port record only.\<close>

definition portOnlyDir :: dir where
  "portOnlyDir = \<lparr>pidEntry = NoEnt, portEntry = PortValue 4000\<rparr>"

text \<open>Directories whose PID record names process 999999, 4242, 1 and 0.\<close>

definition staleDir :: dir where
  "staleDir = \<lparr>pidEntry = File ''pid=999999\<newline>'' anHourAgo, portEntry = PortValue 12345\<rparr>"

definition liveDir :: dir where
  "liveDir = \<lparr>pidEntry = File ''pid=4242\<newline>'' anHourAgo, portEntry = PortNoEnt\<rparr>"

definition initDir :: dir where
  "initDir = \<lparr>pidEntry = File ''pid=1\<newline>'' anHourAgo, portEntry = PortNoEnt\<rparr>"

definition zeroPidDir :: dir where
  "zeroPidDir = \<lparr>pidEntry = File ''pid=0\<newline>'' anHourAgo, portEntry = PortValue 12345\<rparr>"

definition negativePidDir :: dir where
  "negativePidDir = \<lparr>pidEntry = File ''pid=-7\<newline>'' anHourAgo, portEntry = PortValue 12345\<rparr>"

text \<open>A directory whose PID record is still empty, last modified at the given time.\<close>

definition halfWrittenDir :: "int \<Rightarrow> dir" where
  "halfWrittenDir mtime = \<lparr>pidEntry = File [] mtime, portEntry = PortNoEnt\<rparr>"

text \<open>
  A world in which the instance of \<open>liveDir\<close> is gone one second after \<open>sampleNow\<close>,
  and one in which it never goes.
\<close>

definition sampleWorld :: "int \<Rightarrow> env \<times> dir" where
  "sampleWorld t = (sampleEnv, if t < sampleNow + second then liveDir else emptyDir)"

definition liveWorld :: "int \<Rightarrow> env \<times> dir" where
  "liveWorld t = (sampleEnv, liveDir)"

text \<open>
  A world in which the path of the PID record is a directory that is not empty, an hour
  old.
\<close>

definition fullDirWorld :: "int \<Rightarrow> env \<times> dir" where
  "fullDirWorld t = (sampleEnv, \<lparr>pidEntry = FullDir anHourAgo, portEntry = PortNoEnt\<rparr>)"

text \<open>Rounds that take a millisecond each, and sleeps that end on time.\<close>

definition sampleTiming :: timing where
  "sampleTiming = \<lparr>roundTime = (\<lambda>t. 999999), sleepLag = (\<lambda>t. 0)\<rparr>"

text \<open>
  The six rounds of a call made at \<open>sampleNow\<close> with that timing, when the sixth is the
  last.
\<close>

definition sampleRounds :: "(int \<times> int) list" where
  "sampleRounds =
     [(sampleNow, sampleNow + millisecond),
      (sampleNow + 201 * millisecond, sampleNow + 202 * millisecond),
      (sampleNow + 402 * millisecond, sampleNow + 403 * millisecond),
      (sampleNow + 603 * millisecond, sampleNow + 604 * millisecond),
      (sampleNow + 804 * millisecond, sampleNow + 805 * millisecond),
      (sampleNow + 1005 * millisecond, sampleNow + 1006 * millisecond)]"

text \<open>
  Process 4242 leads its own group, process 4243 is a member of that group, and there
  is no other process; every signal is delivered.
\<close>

definition sampleGetpgid :: "int \<Rightarrow> errno + int" where
  "sampleGetpgid p = (if p = 4242 then Inr 4242 else if p = 4243 then Inr 4242 else Inl ESRCH)"

definition sampleKill :: "int \<Rightarrow> int \<Rightarrow> errno option" where
  "sampleKill target sig = None"

text \<open>
  The recursive equations of \<open>natDigits\<close> and \<open>waitLoop\<close> are unconditional, so they are
  applied by hand.
\<close>

declare natDigits.simps [simp del]

declare waitLoop.simps [simp del]

section \<open>Reading the PID record\<close>

lemma prefix_disj:
  "HasPrefix s ''pid='' \<Longrightarrow> \<not> HasPrefix s ''started_at='' \<and> \<not> HasPrefix s ''tag=''"
  "HasPrefix s ''started_at='' \<Longrightarrow> \<not> HasPrefix s ''tag=''"
  by (auto simp: HasPrefix_def prefix_def)

lemma empty_no_prefix: "\<not> HasPrefix [] ''pid=''" "\<not> HasPrefix [] ''started_at=''" "\<not> HasPrefix [] ''tag=''"
  by (auto simp: HasPrefix_def)

lemma readPIDLines_fails:
  "isl (readPIDLines pt ls out seen) \<longleftrightarrow>
     list_ex (badLine pt) ls \<or> \<not> (seen \<or> list_ex (fieldLine ''pid='') ls)"
proof (induction ls arbitrary: out seen)
  case Nil
  then show ?case by simp
next
  case (Cons l ls)
  show ?case
    using prefix_disj[of "TrimSpace l"] empty_no_prefix
    by (auto simp: Cons Let_def badLine_def fieldLine_def fieldValue_def split: option.splits)
qed

lemma fieldValues_simps [simp]:
  "fieldValues key [] = []"
  "fieldValues key (l # ls) = (if fieldLine key l then fieldValue key l # fieldValues key ls else fieldValues key ls)"
  by (auto simp: fieldValues_def)

lemma startedValues_simps [simp]:
  "startedValues [] = []"
  "startedValues (l # ls) =
     (if fieldLine ''started_at='' l \<and> fieldValue ''started_at='' l \<noteq> []
      then fieldValue ''started_at='' l # startedValues ls else startedValues ls)"
  by (auto simp: startedValues_def)

lemma readPIDLines_result:
  "readPIDLines pt ls out seen = Inr r \<Longrightarrow>
     (if fieldValues ''pid='' ls = [] then pid r = pid out
      else Atoi (last (fieldValues ''pid='' ls)) = Some (pid r))
   \<and> (if startedValues ls = [] then startedAt r = startedAt out
        else pt (last (startedValues ls)) = Some (startedAt r))
   \<and> tag r = (if fieldValues ''tag='' ls = [] then tag out else last (fieldValues ''tag='' ls))"
proof (induction ls arbitrary: out seen)
  case Nil
  then show ?case by (simp split: if_splits)
next
  case (Cons l ls)
  let ?line = "TrimSpace l"
  consider (blank) "?line = []"
    | (pid) "HasPrefix ?line ''pid=''"
    | (started) "HasPrefix ?line ''started_at=''"
    | (tag) "HasPrefix ?line ''tag=''"
    | (other) "?line \<noteq> []" "\<not> HasPrefix ?line ''pid=''" "\<not> HasPrefix ?line ''started_at=''" "\<not> HasPrefix ?line ''tag=''"
    by blast
  then show ?case
  proof cases
    case blank
    with Cons.prems have "readPIDLines pt ls out seen = Inr r" by simp
    from Cons.IH[OF this] blank empty_no_prefix show ?thesis
      by (simp add: fieldLine_def)
  next
    case pid
    then have np: "?line \<noteq> []" using empty_no_prefix by auto
    from pid have d: "\<not> HasPrefix ?line ''started_at=''" "\<not> HasPrefix ?line ''tag=''"
      using prefix_disj by auto
    from Cons.prems pid np obtain p where
      a: "Atoi (fieldValue ''pid='' l) = Some p" and
      r: "readPIDLines pt ls (out\<lparr>pid := p\<rparr>) True = Inr r"
      by (auto simp: Let_def fieldValue_def split: if_splits option.splits)
    from Cons.IH[OF r] a pid d show ?thesis
      by (auto simp: fieldLine_def)
  next
    case started
    then have np: "?line \<noteq> []" using empty_no_prefix by auto
    from started have d: "\<not> HasPrefix ?line ''pid=''" "\<not> HasPrefix ?line ''tag=''"
      using prefix_disj by auto
    show ?thesis
    proof (cases "fieldValue ''started_at='' l = []")
      case True
      with Cons.prems started np d have "readPIDLines pt ls out seen = Inr r"
        by (simp add: Let_def fieldValue_def)
      from Cons.IH[OF this] True started d show ?thesis
        by (auto simp: fieldLine_def)
    next
      case False
      with Cons.prems started np d obtain t where
        a: "pt (fieldValue ''started_at='' l) = Some t" and
        r: "readPIDLines pt ls (out\<lparr>startedAt := t\<rparr>) seen = Inr r"
        by (auto simp: Let_def fieldValue_def split: if_splits option.splits)
      from Cons.IH[OF r] a False started d show ?thesis
        by (auto simp: fieldLine_def)
    qed
  next
    case tag
    then have np: "?line \<noteq> []" using empty_no_prefix by auto
    from tag have d: "\<not> HasPrefix ?line ''pid=''" "\<not> HasPrefix ?line ''started_at=''"
      using prefix_disj by auto
    from Cons.prems tag np d have
      r: "readPIDLines pt ls (out\<lparr>tag := fieldValue ''tag='' l\<rparr>) seen = Inr r"
      by (simp add: Let_def fieldValue_def)
    from Cons.IH[OF r] tag d show ?thesis
      by (auto simp: fieldLine_def)
  next
    case other
    with Cons.prems have "readPIDLines pt ls out seen = Inr r" by simp
    from Cons.IH[OF this] other show ?thesis
      by (simp add: fieldLine_def)
  qed
qed

text \<open>
  Claim C7, as the code has it. For every content of the PID record, \<open>readPIDFile\<close>
  fails exactly when some \<open>pid=\<close> line has an empty or non-integer value, or some
  \<open>started_at=\<close> line has a value that is not empty and does not parse, or no \<open>pid=\<close>
  line is there at all. Otherwise it returns the value of the last \<open>pid=\<close> line, the
  parsed value of the last non-empty \<open>started_at=\<close> line (the zero time when there is
  none) and the value of the last \<open>tag=\<close> line (the empty string when there is none);
  blank lines and lines of no known field do not count.
\<close>

theorem readPIDFile_characterised:
  "(isl (readPIDFile parseTime (Inr data)) \<longleftrightarrow>
      list_ex (badLine parseTime) (splitLines data)
      \<or> \<not> list_ex (fieldLine ''pid='') (splitLines data))
   \<and> (\<forall>r. readPIDFile parseTime (Inr data) = Inr r \<longrightarrow>
         Atoi (last (fieldValues ''pid='' (splitLines data))) = Some (pid r)
         \<and> (if startedValues (splitLines data) = [] then startedAt r = 0
              else parseTime (last (startedValues (splitLines data))) = Some (startedAt r))
         \<and> tag r = (if fieldValues ''tag='' (splitLines data) = [] then []
                     else last (fieldValues ''tag='' (splitLines data))))"
proof (intro conjI allI impI)
  show "isl (readPIDFile parseTime (Inr data)) \<longleftrightarrow>
      list_ex (badLine parseTime) (splitLines data)
      \<or> \<not> list_ex (fieldLine ''pid='') (splitLines data)"
    by (simp add: readPIDFile_def readPIDLines_fails)
next
  fix r
  assume ok: "readPIDFile parseTime (Inr data) = Inr r"
  let ?ls = "splitLines data"
  from ok have run: "readPIDLines parseTime ?ls zeroPidFile False = Inr r"
    by (simp add: readPIDFile_def)
  have "\<not> isl (readPIDLines parseTime ?ls zeroPidFile False)"
    using run by simp
  then have "list_ex (fieldLine ''pid='') ?ls"
    by (simp add: readPIDLines_fails)
  then have ne: "fieldValues ''pid='' ?ls \<noteq> []"
    by (auto simp: fieldValues_def list_ex_iff filter_empty_conv)
  note res = readPIDLines_result[OF run]
  from res ne show "Atoi (last (fieldValues ''pid='' ?ls)) = Some (pid r)"
    by simp
  from res show "if startedValues ?ls = [] then startedAt r = 0
      else parseTime (last (startedValues ?ls)) = Some (startedAt r)"
    by (simp add: zeroPidFile_def split: if_splits)
  from res show "tag r = (if fieldValues ''tag='' ?ls = [] then []
      else last (fieldValues ''tag='' ?ls))"
    by (simp add: zeroPidFile_def)
qed

lemma sample_record_read:
  "readPIDFile sampleParseTime
     (Inr ''pid=123\<newline>started_at=2026-01-13T20:00:00Z\<newline>tag=my-cluster\<newline>'')
     = Inr \<lparr>pid = 123, startedAt = 1768334400000000000, tag = ''my-cluster''\<rparr>"
  by code_simp

theorem readPIDFile_characterised_witness:
  "readPIDFile sampleParseTime
     (Inr ''pid=123\<newline>started_at=2026-01-13T20:00:00Z\<newline>tag=my-cluster\<newline>'')
     = Inr \<lparr>pid = 123, startedAt = 1768334400000000000, tag = ''my-cluster''\<rparr>
   \<and> Atoi (last (fieldValues ''pid=''
         (splitLines ''pid=123\<newline>started_at=2026-01-13T20:00:00Z\<newline>tag=my-cluster\<newline>'')))
       = Some 123"
  using readPIDFile_characterised [of sampleParseTime
      "''pid=123\<newline>started_at=2026-01-13T20:00:00Z\<newline>tag=my-cluster\<newline>''"]
    sample_record_read
  by simp

text \<open>
  The claim as written counts every present field that does not parse as a failure. A
  \<open>started_at=\<close> line with nothing after the key is present, and the parser rejects
  its empty value, yet the record is read: the code skips the line.
\<close>

theorem readPIDFile_empty_started_at_counterexample:
  "readPIDFile sampleParseTime (Inr ''pid=1\<newline>started_at=\<newline>'')
     = Inr \<lparr>pid = 1, startedAt = 0, tag = []\<rparr>
   \<and> fieldLine ''started_at='' ''started_at=''
   \<and> sampleParseTime (fieldValue ''started_at='' ''started_at='') = None"
  by code_simp

section \<open>Liveness of a recorded process\<close>

lemma isPIDRunning_alive:
  "0 < p \<Longrightarrow> kill0 e p = None \<or> kill0 e p = Some EPERM \<Longrightarrow> isPIDRunning e p = (True, None)"
  by (auto simp: isPIDRunning_def)

lemma isPIDRunning_gone:
  "0 < p \<Longrightarrow> kill0 e p = Some ESRCH \<Longrightarrow> isPIDRunning e p = (False, None)"
  by (auto simp: isPIDRunning_def)

lemma cleanup_parsed:
  "TrimSpace dataDir \<noteq> [] \<Longrightarrow> readPIDFile (parseRFC3339 e) (ReadFile (pidEntry d)) = Inr pf \<Longrightarrow>
   cleanupStaleRuntimeFiles e dataDir d =
     (case isPIDRunning e (pid pf) of
        (running, Some err) \<Rightarrow> (Some (CheckPid (pid pf) err), d)
      | (running, None) \<Rightarrow>
          if running then (Some (AlreadyRunningPid (pid pf)), d)
          else (None, removePort (removePid d)))"
  by (simp add: cleanupStaleRuntimeFiles_def split: prod.splits option.splits)

lemma parsed_is_file:
  "readPIDFile pt (ReadFile ent) = Inr pf \<Longrightarrow> \<exists>data mtime. ent = File data mtime"
  by (cases ent) (auto simp: readPIDFile_def)

lemma remove_both:
  "pidEntry d = File data mtime \<Longrightarrow>
   removePort (removePid d) = d\<lparr>pidEntry := NoEnt, portEntry := PortNoEnt\<rparr>"
  by (simp add: removePort_def removePid_def)

text \<open>
  Claim C9. For every positive pid, \<open>isPIDRunning\<close> reports the process as running
  when the null signal succeeds and also when it fails with \<open>EPERM\<close>; so stale cleanup
  fails with the already-running error, and leaves the directory as it is, when the PID
  record names a process that the caller may not signal.
\<close>

theorem isPIDRunning_eperm_counts_as_running:
  assumes "0 < p"
  shows "(kill0 e p = None \<or> kill0 e p = Some EPERM \<longrightarrow> isPIDRunning e p = (True, None))
       \<and> (kill0 e p = Some EPERM \<and> TrimSpace dataDir \<noteq> []
            \<and> readPIDFile (parseRFC3339 e) (ReadFile (pidEntry d)) = Inr pf \<and> pid pf = p
          \<longrightarrow> cleanupStaleRuntimeFiles e dataDir d = (Some (AlreadyRunningPid p), d))"
  using assms isPIDRunning_alive[of p e]
  by (auto simp: cleanup_parsed)

lemma sample_path: "TrimSpace sampleDataDir \<noteq> []"
  by code_simp

lemma init_record:
  "readPIDFile (parseRFC3339 foreignEnv) (ReadFile (pidEntry initDir))
     = Inr \<lparr>pid = 1, startedAt = 0, tag = []\<rparr>"
  "kill0 foreignEnv 1 = Some EPERM"
  by code_simp+

theorem isPIDRunning_eperm_counts_as_running_witness:
  "isPIDRunning foreignEnv 1 = (True, None)
   \<and> cleanupStaleRuntimeFiles foreignEnv sampleDataDir initDir
        = (Some (AlreadyRunningPid 1), initDir)"
  using isPIDRunning_eperm_counts_as_running
          [where p = 1 and e = foreignEnv and dataDir = sampleDataDir and d = initDir
             and pf = "\<lparr>pid = 1, startedAt = 0, tag = []\<rparr>"]
    init_record sample_path
  by simp

section \<open>Probing the command server\<close>

lemma probeCommand_alive:
  "probeCommand e timeout port = (True, None) \<longleftrightarrow>
     commandRefusesGet (httpGet e timeout port ''/command'')"
  by (auto simp: probeCommand_def commandRefusesGet_def split: httpResult.splits sum.splits)

lemma probeCommand_error:
  "probeCommand e timeout port \<noteq> (True, None) \<Longrightarrow>
     \<not> fst (probeCommand e timeout port) \<and> snd (probeCommand e timeout port) \<noteq> None"
  by (auto simp: probeCommand_def split: httpResult.splits sum.splits if_splits)

lemma probeCommand_unexpected:
  "httpGet e timeout port ''/command'' = Response 405 (Inr reply) \<Longrightarrow>
   \<not> (\<not> OK reply \<and> Error reply = ''method not allowed'') \<Longrightarrow>
   probeCommand e timeout port = (False, Some UnexpectedResponse)"
  by (auto simp: probeCommand_def)

lemma probe_cases:
  assumes "0 < port"
  shows "probeWithRequests e timeout port =
     (if pingFallsBack (httpGet e timeout port ''/ping'')
      then (probeCommand e timeout port, [''/ping'', ''/command''])
      else if pingPong (httpGet e timeout port ''/ping'') then ((True, None), [''/ping''])
      else ((False,
             Some (case httpGet e timeout port ''/ping'' of
                     DoError err ctxDone \<Rightarrow> err
                   | Response status (Inl err) \<Rightarrow> err
                   | Response status (Inr reply) \<Rightarrow> UnexpectedPing)), [''/ping'']))"
  using assms
  by (auto simp: probeWithRequests_def pingFallsBack_def pingPong_def
           split: httpResult.splits sum.splits)

lemma pingPong_settles: "pingPong r \<Longrightarrow> \<not> pingFallsBack r"
  by (auto simp: pingPong_def pingFallsBack_def split: httpResult.splits sum.splits)

text \<open>
  Claim C6, as the code has it. For every positive port the probe requests \<open>/ping\<close>
  first. It reports the server alive exactly when \<open>/ping\<close> answers 200 with
  \<open>{ok:true, message:"pong"}\<close>, or \<open>/ping\<close> does not settle the matter (any status
  other than 200, or a failure while the context is still live) and \<open>/command\<close>
  answers 405 with \<open>{ok:false, error:"method not allowed"}\<close>. Every other outcome is
  an error and not alive. \<open>/command\<close> is requested exactly when \<open>/ping\<close> does not
  settle the matter, and a 405 reply of \<open>/command\<close> with any other body gives the
  error "unexpected probe response".
\<close>

theorem probe_alive_iff:
  assumes "0 < port"
  shows "(probePlaygroundCommandServer e timeout port = (True, None) \<longleftrightarrow>
            pingPong (httpGet e timeout port ''/ping'')
            \<or> (pingFallsBack (httpGet e timeout port ''/ping'')
                \<and> commandRefusesGet (httpGet e timeout port ''/command'')))
       \<and> (probePlaygroundCommandServer e timeout port \<noteq> (True, None) \<longrightarrow>
            \<not> fst (probePlaygroundCommandServer e timeout port)
            \<and> snd (probePlaygroundCommandServer e timeout port) \<noteq> None)
       \<and> snd (probeWithRequests e timeout port) =
            (if pingFallsBack (httpGet e timeout port ''/ping'')
             then [''/ping'', ''/command''] else [''/ping''])
       \<and> (\<forall>reply. pingFallsBack (httpGet e timeout port ''/ping'')
            \<and> httpGet e timeout port ''/command'' = Response 405 (Inr reply)
            \<and> \<not> (\<not> OK reply \<and> Error reply = ''method not allowed'') \<longrightarrow>
            probePlaygroundCommandServer e timeout port = (False, Some UnexpectedResponse))"
proof (intro conjI allI impI)
  show "probePlaygroundCommandServer e timeout port = (True, None) \<longleftrightarrow>
            pingPong (httpGet e timeout port ''/ping'')
            \<or> (pingFallsBack (httpGet e timeout port ''/ping'')
                \<and> commandRefusesGet (httpGet e timeout port ''/command''))"
    using pingPong_settles[of "httpGet e timeout port ''/ping''"]
    by (auto simp: probePlaygroundCommandServer_def probe_cases[OF assms] probeCommand_alive)
next
  assume "probePlaygroundCommandServer e timeout port \<noteq> (True, None)"
  then show "\<not> fst (probePlaygroundCommandServer e timeout port)"
    and "snd (probePlaygroundCommandServer e timeout port) \<noteq> None"
    using probeCommand_error[of e timeout port]
    by (auto simp: probePlaygroundCommandServer_def probe_cases[OF assms] split: if_splits)
next
  show "snd (probeWithRequests e timeout port) =
            (if pingFallsBack (httpGet e timeout port ''/ping'')
             then [''/ping'', ''/command''] else [''/ping''])"
    by (simp add: probe_cases[OF assms])
next
  fix reply
  assume "pingFallsBack (httpGet e timeout port ''/ping'')
            \<and> httpGet e timeout port ''/command'' = Response 405 (Inr reply)
            \<and> \<not> (\<not> OK reply \<and> Error reply = ''method not allowed'')"
  then show "probePlaygroundCommandServer e timeout port = (False, Some UnexpectedResponse)"
    using probeCommand_unexpected[of e timeout port reply]
    by (simp add: probePlaygroundCommandServer_def probe_cases[OF assms])
qed

lemma legacy_replies:
  "pingFallsBack (httpGet (withServer httpLegacy) probeTimeout 4000 ''/ping'')"
  "commandRefusesGet (httpGet (withServer httpLegacy) probeTimeout 4000 ''/command'')"
  by code_simp+

theorem probe_alive_iff_witness:
  "probePlaygroundCommandServer (withServer httpLegacy) probeTimeout 4000 = (True, None)
   \<and> snd (probeWithRequests (withServer httpLegacy) probeTimeout 4000) = [''/ping'', ''/command'']"
  using probe_alive_iff [where port = 4000 and e = "withServer httpLegacy" and timeout = probeTimeout]
    legacy_replies
  by simp

text \<open>
  The claim as written lets the probe fall back only when \<open>/ping\<close> answers 404, and makes
  every other response an error. Here \<open>/ping\<close> answers 500; the probe still asks
  \<open>/command\<close>, and reports the server alive.
\<close>

theorem probe_falls_back_on_500_counterexample:
  "httpGet (withServer httpPingBroken) probeTimeout 4000 ''/ping'' = Response 500 (Inl DecodeError)
   \<and> probePlaygroundCommandServer (withServer httpPingBroken) probeTimeout 4000 = (True, None)
   \<and> snd (probeWithRequests (withServer httpPingBroken) probeTimeout 4000)
        = [''/ping'', ''/command'']"
  by code_simp

section \<open>Stale cleanup\<close>

text \<open>
  Claim C4, as the code has it. For every data directory whose PID record parses: with a
  positive pid, when the null signal to that pid succeeds or fails with \<open>EPERM\<close>,
  cleanup fails with the already-running error and changes nothing, and when it fails
  with \<open>ESRCH\<close>, cleanup removes the PID record and the Port record and succeeds,
  whatever the Port record is and without looking at the port; with a pid that is zero
  or negative, cleanup fails on the pid itself, whatever the signal would answer, and
  changes nothing.
\<close>

theorem cleanup_parsed_pid:
  assumes "TrimSpace dataDir \<noteq> []"
    and "readPIDFile (parseRFC3339 e) (ReadFile (pidEntry d)) = Inr pf"
  shows "(0 < pid pf \<and> (kill0 e (pid pf) = None \<or> kill0 e (pid pf) = Some EPERM) \<longrightarrow>
            cleanupStaleRuntimeFiles e dataDir d = (Some (AlreadyRunningPid (pid pf)), d))
       \<and> (0 < pid pf \<and> kill0 e (pid pf) = Some ESRCH \<longrightarrow>
            cleanupStaleRuntimeFiles e dataDir d
              = (None, d\<lparr>pidEntry := NoEnt, portEntry := PortNoEnt\<rparr>))
       \<and> (pid pf \<le> 0 \<longrightarrow>
            cleanupStaleRuntimeFiles e dataDir d
              = (Some (CheckPid (pid pf) (InvalidPidNumber (pid pf))), d))"
proof -
  from parsed_is_file[OF assms(2)] obtain data mtime where f: "pidEntry d = File data mtime"
    by blast
  have alive: "0 < pid pf \<and> (kill0 e (pid pf) = None \<or> kill0 e (pid pf) = Some EPERM) \<longrightarrow>
      cleanupStaleRuntimeFiles e dataDir d = (Some (AlreadyRunningPid (pid pf)), d)"
    using isPIDRunning_alive[of "pid pf" e]
    by (auto simp: cleanup_parsed[OF assms])
  have gone: "0 < pid pf \<and> kill0 e (pid pf) = Some ESRCH \<longrightarrow>
      cleanupStaleRuntimeFiles e dataDir d
        = (None, d\<lparr>pidEntry := NoEnt, portEntry := PortNoEnt\<rparr>)"
    using isPIDRunning_gone[of "pid pf" e] remove_both[OF f]
    by (auto simp: cleanup_parsed[OF assms])
  have bad: "pid pf \<le> 0 \<longrightarrow>
      cleanupStaleRuntimeFiles e dataDir d
        = (Some (CheckPid (pid pf) (InvalidPidNumber (pid pf))), d)"
    by (simp add: cleanup_parsed[OF assms] isPIDRunning_def)
  from alive gone bad show ?thesis by blast
qed

lemma stale_and_live_records:
  "readPIDFile (parseRFC3339 sampleEnv) (ReadFile (pidEntry staleDir))
     = Inr \<lparr>pid = 999999, startedAt = 0, tag = []\<rparr>"
  "readPIDFile (parseRFC3339 sampleEnv) (ReadFile (pidEntry liveDir))
     = Inr \<lparr>pid = 4242, startedAt = 0, tag = []\<rparr>"
  "kill0 sampleEnv 999999 = Some ESRCH"
  "kill0 sampleEnv 4242 = None"
  "staleDir\<lparr>pidEntry := NoEnt, portEntry := PortNoEnt\<rparr> = emptyDir"
  by code_simp+

lemma negative_pid_record:
  "readPIDFile (parseRFC3339 sampleEnv) (ReadFile (pidEntry negativePidDir))
     = Inr \<lparr>pid = - 7, startedAt = 0, tag = []\<rparr>"
  by code_simp

theorem cleanup_parsed_pid_witness:
  "cleanupStaleRuntimeFiles sampleEnv sampleDataDir staleDir = (None, emptyDir)
   \<and> cleanupStaleRuntimeFiles sampleEnv sampleDataDir liveDir
        = (Some (AlreadyRunningPid 4242), liveDir)
   \<and> cleanupStaleRuntimeFiles sampleEnv sampleDataDir negativePidDir
        = (Some (CheckPid (- 7) (InvalidPidNumber (- 7))), negativePidDir)"
  using cleanup_parsed_pid
          [where dataDir = sampleDataDir and e = sampleEnv and d = staleDir
             and pf = "\<lparr>pid = 999999, startedAt = 0, tag = []\<rparr>"]
    cleanup_parsed_pid
          [where dataDir = sampleDataDir and e = sampleEnv and d = liveDir
             and pf = "\<lparr>pid = 4242, startedAt = 0, tag = []\<rparr>"]
    cleanup_parsed_pid
          [where dataDir = sampleDataDir and e = sampleEnv and d = negativePidDir
             and pf = "\<lparr>pid = - 7, startedAt = 0, tag = []\<rparr>"]
    stale_and_live_records negative_pid_record sample_path
  by simp

text \<open>
  The claim as written gives two outcomes for every PID record that parses. A record
  with \<open>pid=0\<close> parses, and no process 0 is running; cleanup neither reports an
  instance in use nor removes the records: it fails on the pid itself, sending no
  signal, and leaves both records.
\<close>

theorem cleanup_pid_zero_counterexample:
  "readPIDFile (parseRFC3339 sampleEnv) (ReadFile (pidEntry zeroPidDir))
     = Inr \<lparr>pid = 0, startedAt = 0, tag = []\<rparr>
   \<and> cleanupStaleRuntimeFiles sampleEnv sampleDataDir zeroPidDir
        = (Some (CheckPid 0 (InvalidPidNumber 0)), zeroPidDir)"
  by code_simp

lemma cleanup_no_pid:
  "TrimSpace dataDir \<noteq> [] \<Longrightarrow> pidEntry d = NoEnt \<Longrightarrow>
   cleanupStaleRuntimeFiles e dataDir d = cleanupPortOnly e d"
  by (simp add: cleanupStaleRuntimeFiles_def readPIDFile_def)

text \<open>
  Claim C1, as the code has it. For every data directory with no PID record and a Port
  record holding a positive port, cleanup probes the command server under a 500 ms
  timeout. If the probe succeeds, cleanup fails with the already-running error for that
  port and changes nothing; if the probe ends in a timeout, it fails with the timed-out
  error and changes nothing; after any other failure of the probe (a refused connection
  or an unexpected response alike) it removes the Port record and succeeds.
\<close>

theorem cleanup_port_only:
  assumes "TrimSpace dataDir \<noteq> []"
    and "pidEntry d = NoEnt"
    and "portEntry d = PortValue port"
    and "0 < port"
  shows "(probePlaygroundCommandServer e (500 * millisecond) port = (True, None) \<longrightarrow>
            cleanupStaleRuntimeFiles e dataDir d = (Some (AlreadyRunningPort port), d))
       \<and> (isTimeoutErr (snd (probePlaygroundCommandServer e (500 * millisecond) port)) \<longrightarrow>
            cleanupStaleRuntimeFiles e dataDir d = (Some (ProbeTimedOut port), d))
       \<and> (probePlaygroundCommandServer e (500 * millisecond) port \<noteq> (True, None)
            \<and> \<not> isTimeoutErr (snd (probePlaygroundCommandServer e (500 * millisecond) port)) \<longrightarrow>
            cleanupStaleRuntimeFiles e dataDir d = (None, d\<lparr>portEntry := PortNoEnt\<rparr>))"
  using assms
  by (auto simp: cleanup_no_pid cleanupPortOnly_def probeTimeout_def removePort_def
           split: prod.splits)

lemma port_only_probes:
  "probePlaygroundCommandServer (withServer httpCurrent) (500 * millisecond) 4000 = (True, None)"
  "probePlaygroundCommandServer (withServer httpSlow) (500 * millisecond) 4000
     = (False, Some NetTimeout)"
  "probePlaygroundCommandServer (withServer httpRefused) (500 * millisecond) 4000
     = (False, Some NetRefused)"
  "pidEntry portOnlyDir = NoEnt"
  "portEntry portOnlyDir = PortValue 4000"
  "portOnlyDir\<lparr>portEntry := PortNoEnt\<rparr> = emptyDir"
  by code_simp+

theorem cleanup_port_only_witness:
  "cleanupStaleRuntimeFiles (withServer httpCurrent) sampleDataDir portOnlyDir
     = (Some (AlreadyRunningPort 4000), portOnlyDir)
   \<and> cleanupStaleRuntimeFiles (withServer httpSlow) sampleDataDir portOnlyDir
        = (Some (ProbeTimedOut 4000), portOnlyDir)
   \<and> cleanupStaleRuntimeFiles (withServer httpRefused) sampleDataDir portOnlyDir
        = (None, emptyDir)"
  using cleanup_port_only
          [where dataDir = sampleDataDir and d = portOnlyDir and port = 4000
             and e = "withServer httpCurrent"]
    cleanup_port_only
          [where dataDir = sampleDataDir and d = portOnlyDir and port = 4000
             and e = "withServer httpSlow"]
    cleanup_port_only
          [where dataDir = sampleDataDir and d = portOnlyDir and port = 4000
             and e = "withServer httpRefused"]
    port_only_probes sample_path
  by simp

text \<open>
  The claim as written makes cleanup fail, and keep the Port record, when the probe
  gets an unexpected response. Here another HTTP server answers on the port, the probe
  fails with "unexpected ping response", and cleanup removes the Port record and
  succeeds.
\<close>

theorem cleanup_unexpected_response_counterexample:
  "probePlaygroundCommandServer (withServer httpOther) (500 * millisecond) 4000
     = (False, Some UnexpectedPing)
   \<and> cleanupStaleRuntimeFiles (withServer httpOther) sampleDataDir portOnlyDir
        = (None, emptyDir)"
  by code_simp

lemma readPIDLines_error:
  "readPIDLines pt ls out seen = Inl err \<Longrightarrow> \<not> IsNotExist err"
  by (induction ls arbitrary: out seen)
     (auto simp: Let_def split: if_splits option.splits)

lemma unreadable_not_missing:
  "Stat ent = Inr mtime \<Longrightarrow> readPIDFile pt (ReadFile ent) = Inl err \<Longrightarrow> \<not> IsNotExist err"
  by (cases ent) (auto simp: readPIDFile_def dest: readPIDLines_error)

lemma cleanup_invalid_pid:
  "TrimSpace dataDir \<noteq> [] \<Longrightarrow> Stat (pidEntry d) = Inr mtime \<Longrightarrow>
   isl (readPIDFile (parseRFC3339 e) (ReadFile (pidEntry d))) \<Longrightarrow>
   cleanupStaleRuntimeFiles e dataDir d = cleanupInvalidPid e d mtime"
  using unreadable_not_missing[of "pidEntry d" mtime "parseRFC3339 e"]
  by (auto simp: cleanupStaleRuntimeFiles_def split: sum.splits)

lemma Since_small:
  "0 \<le> nowT - t \<Longrightarrow> nowT - t < 2 * second \<Longrightarrow> Since nowT t = nowT - t"
  by (simp add: Since_def second_def)

text \<open>
  Claim C3, as the code has it. For every data directory whose PID record is there but
  cannot be read as a record, and whose modification time lies at most 2 s (exclusive)
  and at least 0 s in the past, cleanup fails with the still-starting error and leaves
  the PID record and the Port record as they are; a claim with a non-blank tag then
  fails with that error wrapped as "already in use", and changes nothing either.
\<close>

theorem cleanup_grace_window:
  assumes "TrimSpace dataDir \<noteq> []"
    and "TrimSpace tg \<noteq> []"
    and "mkdirAll e dataDir = None"
    and "Stat (pidEntry d) = Inr mtime"
    and "isl (readPIDFile (parseRFC3339 e) (ReadFile (pidEntry d)))"
    and "0 \<le> now e - mtime"
    and "now e - mtime < 2 * second"
  shows "cleanupStaleRuntimeFiles e dataDir d = (Some Starting, d)
       \<and> claimPlaygroundPIDFile fuel e dataDir tg d = Some (Inl (TagInUse tg Starting), d)"
proof -
  have c: "cleanupStaleRuntimeFiles e dataDir d = (Some Starting, d)"
    using assms Since_small[of "now e" mtime]
    by (simp add: cleanup_invalid_pid cleanupInvalidPid_def pidFileWriteGracePeriod_def)
  then show ?thesis
    using assms by (simp add: claimPlaygroundPIDFile_def)
qed

lemma half_written:
  "Stat (pidEntry (halfWrittenDir (sampleNow - second))) = Inr (sampleNow - second)"
  "isl (readPIDFile (parseRFC3339 sampleEnv)
          (ReadFile (pidEntry (halfWrittenDir (sampleNow - second)))))"
  "mkdirAll sampleEnv sampleDataDir = None"
  "TrimSpace ''demo'' \<noteq> []"
  "0 \<le> now sampleEnv - (sampleNow - second)"
  "now sampleEnv - (sampleNow - second) < 2 * second"
  by code_simp+

theorem cleanup_grace_window_witness:
  "cleanupStaleRuntimeFiles sampleEnv sampleDataDir (halfWrittenDir (sampleNow - second))
     = (Some Starting, halfWrittenDir (sampleNow - second))
   \<and> claimPlaygroundPIDFile 1 sampleEnv sampleDataDir ''demo''
        (halfWrittenDir (sampleNow - second))
        = Some (Inl (TagInUse ''demo'' Starting), halfWrittenDir (sampleNow - second))"
  using cleanup_grace_window
          [where dataDir = sampleDataDir and tg = "''demo''" and e = sampleEnv
             and d = "halfWrittenDir (sampleNow - second)" and mtime = "sampleNow - second"
             and fuel = 1]
    half_written sample_path
  by simp

text \<open>
  The claim as written asks only for an age below 2 s. A PID record whose modification
  time lies one second in the future has a negative age, which is below 2 s; cleanup
  does not take it for a record that is being written, and removes it.
\<close>

theorem cleanup_future_mtime_counterexample:
  "Stat (pidEntry (halfWrittenDir (sampleNow + second))) = Inr (sampleNow + second)
   \<and> isl (readPIDFile (parseRFC3339 sampleEnv)
            (ReadFile (pidEntry (halfWrittenDir (sampleNow + second)))))
   \<and> now sampleEnv - (sampleNow + second) < 2 * second
   \<and> cleanupStaleRuntimeFiles sampleEnv sampleDataDir (halfWrittenDir (sampleNow + second))
        = (None, emptyDir)"
  by code_simp

section \<open>Claim, second claim, release, claim again\<close>

lemma plain_no_space_prefix:
  assumes "plainChar c"
  shows "find (\<lambda>p. p \<noteq> [] \<and> prefix p (c # cs)) spaceSeqs = None"
proof -
  have "\<forall>p \<in> set spaceSeqs. \<not> prefix p (c # cs)"
    using assms by (auto simp: spaceSeqs_def plainChar_def)
  then show ?thesis by (simp add: find_None_iff)
qed

lemma plain_no_space_suffix:
  assumes "plainChar c"
  shows "find (\<lambda>p. p \<noteq> [] \<and> prefix p (c # cs)) (map rev spaceSeqs) = None"
proof -
  have "\<forall>p \<in> set (map rev spaceSeqs). \<not> prefix p (c # cs)"
    using assms by (auto simp: spaceSeqs_def plainChar_def)
  then show ?thesis by (simp add: find_None_iff)
qed

lemma trimLeftSpace_plain: "s = [] \<or> plainChar (hd s) \<Longrightarrow> trimLeftSpace s = s"
  by (cases s) (auto simp: trimLeftSpace_def plain_no_space_prefix)

lemma trimRightSpace_plain: "s = [] \<or> plainChar (last s) \<Longrightarrow> trimRightSpace s = s"
proof (cases "rev s")
  case Nil
  then show ?thesis by (simp add: trimRightSpace_def)
next
  case (Cons c cs)
  assume "s = [] \<or> plainChar (last s)"
  with Cons have "plainChar c" by (metis last_rev list.sel(1) rev_is_Nil_conv list.distinct(1) rev_rev_ident)
  moreover have "length s = Suc (length cs)" using Cons by (metis length_rev length_Cons)
  ultimately show ?thesis
    using Cons by (simp add: trimRightSpace_def plain_no_space_suffix)
qed

lemma TrimSpace_plain: "plainText s \<Longrightarrow> TrimSpace s = s"
proof -
  assume p: "plainText s"
  then have "s = [] \<or> plainChar (hd s)" "s = [] \<or> plainChar (last s)"
    by (cases s; simp add: plainText_def list_all_iff)+
  then show ?thesis by (simp add: TrimSpace_def trimLeftSpace_plain trimRightSpace_plain)
qed

lemma splitAcc_line:
  "CHR 0x0A \<notin> set a \<Longrightarrow> splitAcc cur (a @ CHR 0x0A # rest) = (rev cur @ a) # splitAcc [] rest"
  by (induction a arbitrary: cur) auto

lemma splitLines_line:
  "CHR 0x0A \<notin> set a \<Longrightarrow> splitLines (a @ CHR 0x0A # rest) = a # splitLines rest"
  by (simp add: splitLines_def splitAcc_line)

lemma plainText_no_newline: "plainText s \<Longrightarrow> CHR 0x0A \<notin> set s"
  by (auto simp: plainText_def plainChar_def list_all_iff)

lemma plainText_simps [simp]:
  "plainText []"
  "plainText (c # cs) \<longleftrightarrow> plainChar c \<and> plainText cs"
  "plainText (a @ b) \<longleftrightarrow> plainText a \<and> plainText b"
  by (simp_all add: plainText_def)

lemma plainChar_digit: "(n::nat) < 10 \<Longrightarrow> plainChar (char_of (48 + n))"
  by (simp add: plainChar_def)

lemma isDigit_digit: "(n::nat) < 10 \<Longrightarrow> isDigit (char_of (48 + n))"
  by (simp add: isDigit_def)

lemma digitVal_digit: "(n::nat) < 10 \<Longrightarrow> digitVal (char_of (48 + n)) = int n"
  by (simp add: digitVal_def)


lemma natDigits_props:
  "plainText (natDigits n) \<and> list_all isDigit (natDigits n) \<and> natDigits n \<noteq> []
   \<and> digitsVal (natDigits n) = int n"
proof (induction n rule: natDigits.induct)
  case (1 n)
  show ?case
  proof (cases "n < 10")
    case True
    then show ?thesis
      by (subst (1 2 3 4) natDigits.simps)
         (simp add: plainText_def plainChar_digit isDigit_digit digitVal_digit digitsVal_def)
  next
    case False
    have m: "n mod 10 < 10" by simp
    from False 1 have ih: "plainText (natDigits (n div 10))" "list_all isDigit (natDigits (n div 10))"
      "digitsVal (natDigits (n div 10)) = int (n div 10)" by simp_all
    have "int (n div 10) * 10 + int (n mod 10) = int n"
      by (metis of_nat_add of_nat_mult of_nat_numeral div_mult_mod_eq)
    with False ih m show ?thesis
      by (subst (1 2 3 4) natDigits.simps)
         (simp add: plainText_def plainChar_digit isDigit_digit digitVal_digit digitsVal_def)
  qed
qed

lemma digit_not_sign: "isDigit c \<Longrightarrow> c \<noteq> CHR ''-'' \<and> c \<noteq> CHR ''+''"
  by (auto simp: isDigit_def)

lemma Atoi_Itoa:
  assumes "0 \<le> p" and "p < 2 ^ 63"
  shows "Atoi (Itoa p) = Some p" and "plainText (Itoa p)" and "Itoa p \<noteq> []"
proof -
  let ?ds = "natDigits (nat p)"
  have it: "Itoa p = ?ds" using assms(1) by (simp add: Itoa_def)
  note props = natDigits_props[of "nat p"]
  from props obtain c cs where ds: "?ds = c # cs" by (cases ?ds) auto
  with props have "isDigit c" by simp
  then have ns: "hd ?ds \<noteq> CHR ''-''" "hd ?ds \<noteq> CHR ''+''"
    using digit_not_sign ds by auto
  have v: "digitsVal ?ds = p" using props assms(1) by simp
  have la: "list_all isDigit ?ds" and ne: "?ds \<noteq> []" using props by simp_all
  have "Atoi ?ds = Some p"
    unfolding Atoi_def Let_def using ns la ne v assms by simp
  then show "Atoi (Itoa p) = Some p" by (simp only: it)
  show "plainText (Itoa p)" using props by (simp only: it)
  show "Itoa p \<noteq> []" using ne it by simp
qed

lemma key_lines:
  "HasPrefix (''pid='' @ v) ''pid=''" "TrimPrefix (''pid='' @ v) ''pid='' = v"
  "\<not> HasPrefix (''started_at='' @ v) ''pid=''"
  "HasPrefix (''started_at='' @ v) ''started_at=''"
  "TrimPrefix (''started_at='' @ v) ''started_at='' = v"
  "\<not> HasPrefix (''tag='' @ v) ''pid=''" "\<not> HasPrefix (''tag='' @ v) ''started_at=''"
  "HasPrefix (''tag='' @ v) ''tag=''" "TrimPrefix (''tag='' @ v) ''tag='' = v"
  by (simp_all add: HasPrefix_def TrimPrefix_def)

lemma plain_keys: "plainText ''pid=''" "plainText ''started_at=''" "plainText ''tag=''"
  "plainText ''demo''"
  by (simp_all add: plainChar_def)

lemma TrimSpace_empty: "TrimSpace [] = []"
  by (simp add: TrimSpace_def trimLeftSpace_def trimRightSpace_def)

lemma read_written_record:
  assumes "0 < p" and "p < 2 ^ 63"
    and "plainText started" and "started \<noteq> []" and "parseTime started = Some t"
    and "plainText tg"
  shows "readPIDFile parseTime (Inr (pidFileContent p started tg))
           = Inr \<lparr>pid = p, startedAt = t, tag = tg\<rparr>"
proof -
  define L1 where "L1 = ''pid='' @ Itoa p"
  define L2 where "L2 = ''started_at='' @ started"
  define L3 where "L3 = ''tag='' @ tg"
  have ip: "Atoi (Itoa p) = Some p" "plainText (Itoa p)" "Itoa p \<noteq> []"
    using Atoi_Itoa[of p] assms by simp_all
  have pl: "plainText L1" "plainText L2" "plainText L3"
    using ip assms plain_keys by (simp_all add: L1_def L2_def L3_def)
  have sp: "splitLines (pidFileContent p started tg) = [L1, L2, L3, []]"
    using plainText_no_newline[OF ip(2)] plainText_no_newline[OF assms(3)]
      plainText_no_newline[OF assms(6)]
    by (simp add: pidFileContent_def splitLines_def splitAcc_line L1_def L2_def L3_def)
  have tr: "TrimSpace L1 = L1" "TrimSpace L2 = L2" "TrimSpace L3 = L3"
    "TrimSpace (Itoa p) = Itoa p" "TrimSpace started = started" "TrimSpace tg = tg"
    using pl ip assms by (simp_all add: TrimSpace_plain)
  have ne: "L1 \<noteq> []" "L2 \<noteq> []" "L3 \<noteq> []"
    by (simp_all add: L1_def L2_def L3_def)
  have k1: "HasPrefix L1 ''pid=''" "TrimPrefix L1 ''pid='' = Itoa p"
    unfolding L1_def by (rule key_lines)+
  have k2: "\<not> HasPrefix L2 ''pid=''" "HasPrefix L2 ''started_at=''"
    "TrimPrefix L2 ''started_at='' = started"
    unfolding L2_def by (rule key_lines)+
  have k3: "\<not> HasPrefix L3 ''pid=''" "\<not> HasPrefix L3 ''started_at=''"
    "HasPrefix L3 ''tag=''" "TrimPrefix L3 ''tag='' = tg"
    unfolding L3_def by (rule key_lines)+
  have "readPIDLines parseTime [L1, L2, L3, []] zeroPidFile False
          = Inr \<lparr>pid = p, startedAt = t, tag = tg\<rparr>"
    using ip assms
    by (simp add: tr ne k1 k2 k3 TrimSpace_empty zeroPidFile_def)
  then show ?thesis
    by (simp add: readPIDFile_def sp)
qed

lemma cleanup_empty:
  "TrimSpace dataDir \<noteq> [] \<Longrightarrow> cleanupStaleRuntimeFiles e dataDir emptyDir = (None, emptyDir)"
  by (simp add: cleanupStaleRuntimeFiles_def cleanupPortOnly_def readPIDFile_def emptyDir_def)

lemma claim_empty:
  assumes "TrimSpace dataDir \<noteq> []" and "TrimSpace tg \<noteq> []"
    and "mkdirAll e dataDir = None" and "writeErr e = None" and "closeErr e = None"
  shows "claimPlaygroundPIDFile (Suc n) e dataDir tg emptyDir
           = Some (Inr release, claimedDir e tg)"
  using assms
  by (simp add: claimPlaygroundPIDFile_def cleanup_empty claimedDir_def)
     (simp add: emptyDir_def)

lemma inUse_text:
  "sublist ''already in use'' (errorText leaf quote (TagInUse tg err))"
proof -
  have "errorText leaf quote (TagInUse tg err)
          = (''tag '' @ quote tg @ '' is '') @ ''already in use'' @ ('': '' @ errorText leaf quote err)"
    by simp
  then show ?thesis
    by (simp only: sublist_appendI)
qed

text \<open>
  Claim C2. On an empty data directory, with file operations that succeed, a claim with
  the tag \<open>demo\<close> succeeds (one round of the loop is enough) and writes a PID record
  that reads back as the pid of the calling process and the tag \<open>demo\<close>. While that
  process is running, a second claim on the directory fails, whatever the fuel, with
  an error whose message contains "already in use", and changes nothing. The function
  returned by the first claim removes the PID record, which leaves the directory empty,
  and a claim made then succeeds again.
\<close>

theorem claim_release_scenario:
  assumes "TrimSpace dataDir \<noteq> []"
    and "mkdirAll e1 dataDir = None" and "writeErr e1 = None" and "closeErr e1 = None"
    and "0 < selfPid e1" and "selfPid e1 < 2 ^ 63"
    and "plainText (nowRFC3339 e1)" and "nowRFC3339 e1 \<noteq> []"
    and "mkdirAll e2 dataDir = None"
    and "parseRFC3339 e2 (nowRFC3339 e1) = Some t"
    and "kill0 e2 (selfPid e1) = None"
    and "mkdirAll e3 dataDir = None" and "writeErr e3 = None" and "closeErr e3 = None"
  shows "claimPlaygroundPIDFile (Suc n1) e1 dataDir ''demo'' emptyDir
            = Some (Inr release, claimedDir e1 ''demo'')
       \<and> readPIDFile (parseRFC3339 e2) (ReadFile (pidEntry (claimedDir e1 ''demo'')))
            = Inr \<lparr>pid = selfPid e1, startedAt = t, tag = ''demo''\<rparr>
       \<and> claimPlaygroundPIDFile n2 e2 dataDir ''demo'' (claimedDir e1 ''demo'')
            = Some (Inl (TagInUse ''demo'' (AlreadyRunningPid (selfPid e1))),
                    claimedDir e1 ''demo'')
       \<and> sublist ''already in use''
            (errorText leaf quote (TagInUse ''demo'' (AlreadyRunningPid (selfPid e1))))
       \<and> release (claimedDir e1 ''demo'') = emptyDir
       \<and> claimPlaygroundPIDFile (Suc n3) e3 dataDir ''demo'' (release (claimedDir e1 ''demo''))
            = Some (Inr release, claimedDir e3 ''demo'')"
proof -
  let ?d1 = "claimedDir e1 ''demo''"
  have demo: "TrimSpace ''demo'' \<noteq> []"
    using TrimSpace_plain[OF plain_keys(4)] by simp
  have c1: "claimPlaygroundPIDFile (Suc n1) e1 dataDir ''demo'' emptyDir = Some (Inr release, ?d1)"
    using claim_empty[OF assms(1) demo assms(2,3,4)] by simp
  have rd: "readPIDFile (parseRFC3339 e2) (ReadFile (pidEntry ?d1))
            = Inr \<lparr>pid = selfPid e1, startedAt = t, tag = ''demo''\<rparr>"
    using read_written_record[of "selfPid e1" "nowRFC3339 e1" "parseRFC3339 e2" t "''demo''"]
      assms(5,6,7,8,10) plain_keys(4) by (simp add: claimedDir_def)
  have run: "isPIDRunning e2 (selfPid e1) = (True, None)"
    using assms(5,11) by (simp add: isPIDRunning_def)
  have cl: "cleanupStaleRuntimeFiles e2 dataDir ?d1 = (Some (AlreadyRunningPid (selfPid e1)), ?d1)"
    using assms(1) rd run by (simp add: cleanupStaleRuntimeFiles_def)
  have c2: "claimPlaygroundPIDFile n2 e2 dataDir ''demo'' ?d1
            = Some (Inl (TagInUse ''demo'' (AlreadyRunningPid (selfPid e1))), ?d1)"
    using assms(1,9) demo cl by (simp add: claimPlaygroundPIDFile_def)
  have rel: "release ?d1 = emptyDir"
    by (simp add: release_def removePid_def emptyDir_def claimedDir_def)
  have c3: "claimPlaygroundPIDFile (Suc n3) e3 dataDir ''demo'' (release ?d1)
                  = Some (Inr release, claimedDir e3 ''demo'')"
    using claim_empty[OF assms(1) demo assms(12,13,14)] rel by simp
  show ?thesis
    using c1 rd c2 inUse_text rel c3 by blast
qed

lemma sample_env_facts:
  "mkdirAll sampleEnv sampleDataDir = None" "writeErr sampleEnv = None"
  "closeErr sampleEnv = None" "selfPid sampleEnv = 4242"
  "plainText (nowRFC3339 sampleEnv)" "nowRFC3339 sampleEnv \<noteq> []"
  "parseRFC3339 sampleEnv (nowRFC3339 sampleEnv) = Some sampleNow"
  "kill0 sampleEnv 4242 = None"
  by code_simp+

theorem claim_release_scenario_witness:
  "claimPlaygroundPIDFile 1 sampleEnv sampleDataDir ''demo'' emptyDir
     = Some (Inr release, claimedDir sampleEnv ''demo'')
   \<and> readPIDFile (parseRFC3339 sampleEnv) (ReadFile (pidEntry (claimedDir sampleEnv ''demo'')))
        = Inr \<lparr>pid = 4242, startedAt = sampleNow, tag = ''demo''\<rparr>
   \<and> claimPlaygroundPIDFile 1 sampleEnv sampleDataDir ''demo'' (claimedDir sampleEnv ''demo'')
        = Some (Inl (TagInUse ''demo'' (AlreadyRunningPid 4242)), claimedDir sampleEnv ''demo'')
   \<and> release (claimedDir sampleEnv ''demo'') = emptyDir
   \<and> claimPlaygroundPIDFile 1 sampleEnv sampleDataDir ''demo''
        (release (claimedDir sampleEnv ''demo''))
        = Some (Inr release, claimedDir sampleEnv ''demo'')"
proof -
  have p: "0 < selfPid sampleEnv" "selfPid sampleEnv < 2 ^ 63"
    "kill0 sampleEnv (selfPid sampleEnv) = None"
    by (simp_all add: sample_env_facts)
  note w = claim_release_scenario
             [where dataDir = sampleDataDir and ?e1.0 = sampleEnv and ?e2.0 = sampleEnv
                and ?e3.0 = sampleEnv and t = sampleNow and ?n1.0 = 0 and ?n2.0 = 1
                and ?n3.0 = 0,
              OF sample_path sample_env_facts(1,2,3) p(1,2) sample_env_facts(5,6,1,7) p(3)
                 sample_env_facts(1,2,3)]
  have one: "Suc 0 = 1" by simp
  from w show ?thesis
    by (simp only: sample_env_facts(4) one)
qed

section \<open>Waiting with the default timeout\<close>

lemma waitLoop_stopped:
  "roundAt world t = Some d' \<Longrightarrow>
   waitLoop tm world deadline t = (None, d', [(t, roundEnd tm t)])"
  by (subst waitLoop.simps) simp

lemma waitLoop_timeout:
  "roundAt world t = None \<Longrightarrow> deadline < roundEnd tm t \<Longrightarrow>
   waitLoop tm world deadline t
     = (Some WaitTimeout, snd (world (roundEnd tm t)), [(t, roundEnd tm t)])"
  by (subst waitLoop.simps) simp

lemma waitLoop_sleep:
  "roundAt world t = None \<Longrightarrow> \<not> deadline < roundEnd tm t \<Longrightarrow>
   waitLoop tm world deadline t
     = logRound (t, roundEnd tm t) (waitLoop tm world deadline (sleepEnd tm (roundEnd tm t)))"
  by (subst waitLoop.simps) simp

lemma round_takes_time: "t < roundEnd tm t"
  by (simp add: roundEnd_def)

lemma sleep_takes_time: "t + pollInterval \<le> sleepEnd tm t"
  by (simp add: sleepEnd_def)

text \<open>
  What the rounds of the loop are, for a loop that begins a round at \<open>t\<close> with at most
  \<open>n\<close> sleeps to go before the deadline.
\<close>

lemma waitLoop_rounds:
  "deadline \<le> t + int n * pollInterval \<Longrightarrow> waitLoop tm world deadline t = (err, d', rs) \<Longrightarrow>
   rs \<noteq> [] \<and> fst (hd rs) = t \<and> length rs \<le> Suc n \<and> inCadence tm rs
   \<and> (\<forall>r \<in> set (butlast rs). roundAt world (fst r) = None \<and> snd r \<le> deadline)
   \<and> (case roundAt world (fst (last rs)) of
         Some d \<Rightarrow> err = None \<and> d' = d
       | None \<Rightarrow> err = Some WaitTimeout \<and> deadline < snd (last rs)
                 \<and> d' = snd (world (snd (last rs))))"
proof (induction n arbitrary: t err d' rs)
  case 0
  then have late: "deadline < roundEnd tm t"
    using round_takes_time[of t tm] by simp
  show ?case
  proof (cases "roundAt world t")
    case None
    have "(err, d', rs)
            = (Some WaitTimeout, snd (world (roundEnd tm t)), [(t, roundEnd tm t)])"
      using waitLoop_timeout[OF None late] "0.prems"(2) by simp
    then show ?thesis
      using None late by simp
  next
    case (Some d)
    have "(err, d', rs) = (None, d, [(t, roundEnd tm t)])"
      using waitLoop_stopped[OF Some] "0.prems"(2) by simp
    then show ?thesis
      using Some by simp
  qed
next
  case (Suc n)
  show ?case
  proof (cases "roundAt world t")
    case (Some d)
    have "(err, d', rs) = (None, d, [(t, roundEnd tm t)])"
      using waitLoop_stopped[OF Some] Suc.prems(2) by simp
    then show ?thesis
      using Some by simp
  next
    case None
    show ?thesis
    proof (cases "deadline < roundEnd tm t")
      case True
      have "(err, d', rs)
              = (Some WaitTimeout, snd (world (roundEnd tm t)), [(t, roundEnd tm t)])"
        using waitLoop_timeout[OF None True] Suc.prems(2) by simp
      then show ?thesis
        using None True by simp
    next
      case False
      define t' where "t' = sleepEnd tm (roundEnd tm t)"
      obtain err1 d1 rs1 where w1: "waitLoop tm world deadline t' = (err1, d1, rs1)"
        by (cases "waitLoop tm world deadline t'") auto
      have "waitLoop tm world deadline t = logRound (t, roundEnd tm t) (err1, d1, rs1)"
        using waitLoop_sleep[OF None False] w1 by (simp only: t'_def)
      then have res: "err = err1" "d' = d1" "rs = (t, roundEnd tm t) # rs1"
        using Suc.prems(2) by simp_all
      have "t + pollInterval \<le> t'"
        using round_takes_time[of t tm] sleep_takes_time[of "roundEnd tm t" tm]
        by (simp add: t'_def)
      then have near: "deadline \<le> t' + int n * pollInterval"
        using Suc.prems(1) by (simp add: algebra_simps)
      note ih = Suc.IH[OF near w1]
      from ih have ne: "rs1 \<noteq> []" by blast
      then obtain r' rest where rs1: "rs1 = r' # rest"
        by (cases rs1) auto
      from ih have hd1: "fst (hd rs1) = t'" by blast
      from ih have len1: "length rs1 \<le> Suc n" by blast
      from ih have cad1: "inCadence tm rs1" by blast
      from ih have but1: "\<forall>r \<in> set (butlast rs1). roundAt world (fst r) = None \<and> snd r \<le> deadline"
        by blast
      from ih have last1: "case roundAt world (fst (last rs1)) of
         Some d \<Rightarrow> err1 = None \<and> d1 = d
       | None \<Rightarrow> err1 = Some WaitTimeout \<and> deadline < snd (last rs1)
                 \<and> d1 = snd (world (snd (last rs1)))"
        by blast
      have a: "rs \<noteq> []" "fst (hd rs) = t" "length rs \<le> Suc (Suc n)"
        using res(3) len1 by simp_all
      have b: "inCadence tm rs"
        using cad1 hd1 by (simp add: res(3) rs1 t'_def)
      have c: "\<forall>r \<in> set (butlast rs). roundAt world (fst r) = None \<and> snd r \<le> deadline"
        using but1 None False ne by (simp add: res(3))
      have d: "last rs = last rs1"
        using ne by (simp add: res(3))
      from a b c last1 show ?thesis
        unfolding d res(1) res(2) by blast
    qed
  qed
qed

lemma waitRound_gone:
  "waitRound e d = Some d' \<Longrightarrow> pidEntry d' = NoEnt \<or> (\<exists>m. pidEntry d' = FullDir m)"
  by (cases "pidEntry d")
     (auto simp: waitRound_def readPIDFile_def removePid_def removePort_def Let_def
           split: sum.splits if_splits prod.splits dest: readPIDLines_error)

lemma roundAt_gone:
  "roundAt world t = Some d' \<Longrightarrow> pidEntry d' = NoEnt \<or> (\<exists>m. pidEntry d' = FullDir m)"
  unfolding roundAt_def by (rule waitRound_gone)

text \<open>
  Claim C10, as the code has it. For every data directory of a path that is not blank
  and every timeout that is zero or negative, \<open>waitPlaygroundStopped\<close> behaves as with
  a timeout of 60 s. It does not fail at once: it makes a first round at the instant of
  the call, and then one round after each sleep of 200 ms, at most 301 rounds in all.
  Every round but the last found the instance running and ended by the deadline. When
  the last round finds the instance stopped, the call returns nil and leaves the
  directory as that round left it: without a PID record, or with a directory that is
  not empty in its place, which cannot be removed. Otherwise the last round ended after
  the deadline, 60 s after the call, and the call fails with the timeout error.
\<close>

theorem wait_default_timeout:
  assumes "timeout \<le> 0" and "TrimSpace dataDir \<noteq> []"
    and "waitPlaygroundStopped tm world t0 dataDir timeout = (err, d', rs)"
  shows "waitPlaygroundStopped tm world t0 dataDir (60 * second) = (err, d', rs)
       \<and> rs \<noteq> [] \<and> fst (hd rs) = t0 \<and> length rs \<le> 301 \<and> inCadence tm rs
       \<and> (\<forall>r \<in> set (butlast rs). roundAt world (fst r) = None \<and> snd r \<le> t0 + 60 * second)
       \<and> (case roundAt world (fst (last rs)) of
             Some d \<Rightarrow> err = None \<and> d' = d
                        \<and> (pidEntry d' = NoEnt \<or> (\<exists>m. pidEntry d' = FullDir m))
           | None \<Rightarrow> err = Some WaitTimeout \<and> t0 + 60 * second < snd (last rs)
                     \<and> d' = snd (world (snd (last rs))))"
proof -
  have w: "waitLoop tm world (t0 + 60 * second) t0 = (err, d', rs)"
    using assms by (simp add: waitPlaygroundStopped_def)
  have d60: "waitPlaygroundStopped tm world t0 dataDir (60 * second) = (err, d', rs)"
    using assms(2) w by (simp add: waitPlaygroundStopped_def second_def)
  have near: "t0 + 60 * second \<le> t0 + int 300 * pollInterval"
    by (simp add: pollInterval_def millisecond_def second_def)
  note r = waitLoop_rounds[OF near w]
  from r have a: "rs \<noteq> []" "fst (hd rs) = t0" "inCadence tm rs"
    by blast+
  from r have "length rs \<le> Suc 300" by blast
  then have len: "length rs \<le> 301" by simp
  from r have b: "\<forall>r \<in> set (butlast rs). roundAt world (fst r) = None \<and> snd r \<le> t0 + 60 * second"
    by blast
  from r have c: "case roundAt world (fst (last rs)) of
         Some d \<Rightarrow> err = None \<and> d' = d
       | None \<Rightarrow> err = Some WaitTimeout \<and> t0 + 60 * second < snd (last rs)
                 \<and> d' = snd (world (snd (last rs)))"
    by blast
  have e: "case roundAt world (fst (last rs)) of
             Some d \<Rightarrow> err = None \<and> d' = d
                        \<and> (pidEntry d' = NoEnt \<or> (\<exists>m. pidEntry d' = FullDir m))
           | None \<Rightarrow> err = Some WaitTimeout \<and> t0 + 60 * second < snd (last rs)
                     \<and> d' = snd (world (snd (last rs)))"
  proof (cases "roundAt world (fst (last rs))")
    case None
    then show ?thesis using c by simp
  next
    case (Some d)
    then show ?thesis using c roundAt_gone[OF Some] by simp
  qed
  from d60 a len b e show ?thesis by blast
qed

text \<open>
  A call at \<open>sampleNow\<close> in the sample world, round by round: five rounds find the
  instance running, the sixth finds the PID record gone.
\<close>

lemma sample_round_running:
  "roundAt sampleWorld (sampleNow) = None"
  "roundAt sampleWorld (sampleNow + 201 * millisecond) = None"
  "roundAt sampleWorld (sampleNow + 402 * millisecond) = None"
  "roundAt sampleWorld (sampleNow + 603 * millisecond) = None"
  "roundAt sampleWorld (sampleNow + 804 * millisecond) = None"
  by code_simp+

lemma sample_round_stopped:
  "roundAt sampleWorld (sampleNow + 1005 * millisecond) = Some emptyDir"
  by code_simp

lemma sample_round_ends:
  "roundEnd sampleTiming (sampleNow) = sampleNow + millisecond"
  "roundEnd sampleTiming (sampleNow + 201 * millisecond) = sampleNow + 202 * millisecond"
  "roundEnd sampleTiming (sampleNow + 402 * millisecond) = sampleNow + 403 * millisecond"
  "roundEnd sampleTiming (sampleNow + 603 * millisecond) = sampleNow + 604 * millisecond"
  "roundEnd sampleTiming (sampleNow + 804 * millisecond) = sampleNow + 805 * millisecond"
  "roundEnd sampleTiming (sampleNow + 1005 * millisecond) = sampleNow + 1006 * millisecond"
  by (simp_all add: roundEnd_def sampleTiming_def millisecond_def)

lemma sample_sleep_ends:
  "sleepEnd sampleTiming (sampleNow + millisecond) = sampleNow + 201 * millisecond"
  "sleepEnd sampleTiming (sampleNow + 202 * millisecond) = sampleNow + 402 * millisecond"
  "sleepEnd sampleTiming (sampleNow + 403 * millisecond) = sampleNow + 603 * millisecond"
  "sleepEnd sampleTiming (sampleNow + 604 * millisecond) = sampleNow + 804 * millisecond"
  "sleepEnd sampleTiming (sampleNow + 805 * millisecond) = sampleNow + 1005 * millisecond"
  by (simp_all add: sleepEnd_def sampleTiming_def pollInterval_def millisecond_def)

lemma sample_in_time:
  "\<not> sampleNow + 60 * second < roundEnd sampleTiming (sampleNow)"
  "\<not> sampleNow + 60 * second < roundEnd sampleTiming (sampleNow + 201 * millisecond)"
  "\<not> sampleNow + 60 * second < roundEnd sampleTiming (sampleNow + 402 * millisecond)"
  "\<not> sampleNow + 60 * second < roundEnd sampleTiming (sampleNow + 603 * millisecond)"
  "\<not> sampleNow + 60 * second < roundEnd sampleTiming (sampleNow + 804 * millisecond)"
  by (simp_all add: roundEnd_def sampleTiming_def millisecond_def second_def)

lemma sample_loop:
  "waitLoop sampleTiming sampleWorld (sampleNow + 60 * second) sampleNow
     = (None, emptyDir, sampleRounds)"
proof -
  let ?loop = "waitLoop sampleTiming sampleWorld (sampleNow + 60 * second)"
  have r5: "?loop (sampleNow + 1005 * millisecond) = (None, emptyDir, [(sampleNow + 1005 * millisecond, sampleNow + 1006 * millisecond)])"
    using waitLoop_stopped[OF sample_round_stopped] by (simp only: sample_round_ends)
  have r4: "?loop (sampleNow + 804 * millisecond) = (None, emptyDir, [(sampleNow + 804 * millisecond, sampleNow + 805 * millisecond), (sampleNow + 1005 * millisecond, sampleNow + 1006 * millisecond)])"
    using waitLoop_sleep[OF sample_round_running(5) sample_in_time(5)] r5
    by (simp only: sample_round_ends sample_sleep_ends logRound.simps)
  have r3: "?loop (sampleNow + 603 * millisecond) = (None, emptyDir, [(sampleNow + 603 * millisecond, sampleNow + 604 * millisecond), (sampleNow + 804 * millisecond, sampleNow + 805 * millisecond), (sampleNow + 1005 * millisecond, sampleNow + 1006 * millisecond)])"
    using waitLoop_sleep[OF sample_round_running(4) sample_in_time(4)] r4
    by (simp only: sample_round_ends sample_sleep_ends logRound.simps)
  have r2: "?loop (sampleNow + 402 * millisecond) = (None, emptyDir, [(sampleNow + 402 * millisecond, sampleNow + 403 * millisecond), (sampleNow + 603 * millisecond, sampleNow + 604 * millisecond), (sampleNow + 804 * millisecond, sampleNow + 805 * millisecond), (sampleNow + 1005 * millisecond, sampleNow + 1006 * millisecond)])"
    using waitLoop_sleep[OF sample_round_running(3) sample_in_time(3)] r3
    by (simp only: sample_round_ends sample_sleep_ends logRound.simps)
  have r1: "?loop (sampleNow + 201 * millisecond) = (None, emptyDir, [(sampleNow + 201 * millisecond, sampleNow + 202 * millisecond), (sampleNow + 402 * millisecond, sampleNow + 403 * millisecond), (sampleNow + 603 * millisecond, sampleNow + 604 * millisecond), (sampleNow + 804 * millisecond, sampleNow + 805 * millisecond), (sampleNow + 1005 * millisecond, sampleNow + 1006 * millisecond)])"
    using waitLoop_sleep[OF sample_round_running(2) sample_in_time(2)] r2
    by (simp only: sample_round_ends sample_sleep_ends logRound.simps)
  have r0: "?loop (sampleNow) = (None, emptyDir, [(sampleNow, sampleNow + millisecond), (sampleNow + 201 * millisecond, sampleNow + 202 * millisecond), (sampleNow + 402 * millisecond, sampleNow + 403 * millisecond), (sampleNow + 603 * millisecond, sampleNow + 604 * millisecond), (sampleNow + 804 * millisecond, sampleNow + 805 * millisecond), (sampleNow + 1005 * millisecond, sampleNow + 1006 * millisecond)])"
    using waitLoop_sleep[OF sample_round_running(1) sample_in_time(1)] r1
    by (simp only: sample_round_ends sample_sleep_ends logRound.simps)
  from r0 show ?thesis by (simp only: sampleRounds_def)
qed

lemma sample_wait:
  "waitPlaygroundStopped sampleTiming sampleWorld sampleNow sampleDataDir 0
     = (None, emptyDir, sampleRounds)"
  using sample_path sample_loop by (simp add: waitPlaygroundStopped_def)

lemma liveWorld_running: "roundAt liveWorld t = None"
  by code_simp

theorem wait_default_timeout_witness:
  "waitPlaygroundStopped sampleTiming sampleWorld sampleNow sampleDataDir 0
     = (None, emptyDir, sampleRounds)
   \<and> waitPlaygroundStopped sampleTiming sampleWorld sampleNow sampleDataDir (60 * second)
     = (None, emptyDir, sampleRounds)
   \<and> inCadence sampleTiming sampleRounds
   \<and> fst (waitPlaygroundStopped sampleTiming liveWorld sampleNow sampleDataDir 0)
     = Some WaitTimeout"
proof -
  have le: "(0::int) \<le> 0" by simp
  note w = wait_default_timeout
             [where timeout = 0 and dataDir = sampleDataDir and world = sampleWorld
                and tm = sampleTiming and ?t0.0 = sampleNow, OF le sample_path sample_wait]
  from w have a: "waitPlaygroundStopped sampleTiming sampleWorld sampleNow sampleDataDir
                    (60 * second) = (None, emptyDir, sampleRounds)"
    by (rule conjunct1)
  from w have b: "inCadence sampleTiming sampleRounds"
    by blast
  obtain err d' rs
    where l: "waitPlaygroundStopped sampleTiming liveWorld sampleNow sampleDataDir 0
                = (err, d', rs)"
    by (cases "waitPlaygroundStopped sampleTiming liveWorld sampleNow sampleDataDir 0") auto
  note v = wait_default_timeout
             [where timeout = 0 and dataDir = sampleDataDir and world = liveWorld
                and tm = sampleTiming and ?t0.0 = sampleNow, OF le sample_path l]
  from v have "case roundAt liveWorld (fst (last rs)) of
             Some d \<Rightarrow> err = None \<and> d' = d
                        \<and> (pidEntry d' = NoEnt \<or> (\<exists>m. pidEntry d' = FullDir m))
           | None \<Rightarrow> err = Some WaitTimeout \<and> sampleNow + 60 * second < snd (last rs)
                     \<and> d' = snd (liveWorld (snd (last rs)))"
    by blast
  then have "err = Some WaitTimeout"
    by (simp add: liveWorld_running)
  then have c: "fst (waitPlaygroundStopped sampleTiming liveWorld sampleNow sampleDataDir 0)
                  = Some WaitTimeout"
    by (simp add: l)
  from sample_wait a b c show ?thesis by blast
qed

text \<open>
  The claim as written speaks of every data directory. A blank path is refused before
  the timeout is looked at: the call fails at once, with another error than the
  timeout, and makes no round.
\<close>

lemma blank_path: "TrimSpace [] = []" "snd (sampleWorld sampleNow) = liveDir"
  by code_simp+

theorem wait_blank_dataDir_counterexample:
  "waitPlaygroundStopped sampleTiming sampleWorld sampleNow [] 0
     = (Some DataDirEmpty, liveDir, [])"
  by (simp add: waitPlaygroundStopped_def blank_path)

text \<open>
  Against a directory that is not empty in the place of the PID record, the call
  returns nil in its first round and the directory is still there.
\<close>

lemma full_directory_round:
  "roundAt fullDirWorld sampleNow
     = Some \<lparr>pidEntry = FullDir anHourAgo, portEntry = PortNoEnt\<rparr>"
  by code_simp

lemma wait_leaves_full_directory:
  "waitPlaygroundStopped sampleTiming fullDirWorld sampleNow sampleDataDir 0
     = (None, \<lparr>pidEntry = FullDir anHourAgo, portEntry = PortNoEnt\<rparr>,
        [(sampleNow, sampleNow + millisecond)])"
  using sample_path waitLoop_stopped[OF full_directory_round]
  by (simp add: waitPlaygroundStopped_def sample_round_ends)

section \<open>Signalling a process or its group\<close>

text \<open>
  Claim C8. For every positive pid and non-zero signal, \<open>killProcessOrGroup\<close> of the
  Unix build makes one call of \<open>kill\<close>: with the negated pid, which addresses the
  process group, exactly when \<open>getpgid(pid)\<close> succeeds and returns the pid itself, and
  with the pid otherwise; it returns what that call returns. The Windows build makes no
  call and returns nil.
\<close>

theorem killProcessOrGroup_target:
  assumes "0 < p" and "sig \<noteq> 0"
  shows "killProcessOrGroup Getpgid Kill p sig =
           (if Getpgid p = Inr p then (Kill (- p) sig, [(- p, sig)])
            else (Kill p sig, [(p, sig)]))
         \<and> killProcessOrGroupWindows p sig = (None, [])"
  using assms
  by (auto simp: killProcessOrGroup_def killProcessOrGroupWindows_def split: sum.splits)



theorem killProcessOrGroup_target_witness:
  "killProcessOrGroup sampleGetpgid sampleKill 4242 9 = (None, [(- 4242, 9)])
   \<and> killProcessOrGroup sampleGetpgid sampleKill 4243 9 = (None, [(4243, 9)])
   \<and> killProcessOrGroup sampleGetpgid sampleKill 5000 9 = (None, [(5000, 9)])"
  using killProcessOrGroup_target [of 4242 9 sampleGetpgid sampleKill]
    killProcessOrGroup_target [of 4243 9 sampleGetpgid sampleKill]
    killProcessOrGroup_target [of 5000 9 sampleGetpgid sampleKill]
  by (simp add: sampleGetpgid_def sampleKill_def)

section \<open>The barrier of the progress UI\<close>

text \<open>
  A start-up that goes well. The line and the partial line written before the
  controller's \<open>Sync\<close> are in the event log, in order, when that call has returned and
  the Port record is written. A call of \<open>PrintLines\<close> puts the partial line it finds in
  front of its own.
\<close>

lemma startup_run:
  "portRecord (run startupSchedule)"
  "syncPC (run startupSchedule) 0 = SyncReturned"
  "eventLog (ui (run startupSchedule))
     = [EventPrintLines [''banner''], EventPrintLines [''starting'']]"
  "eventsCh (ui (run startupSchedule)) = []"
  by code_simp+

lemma print_run:
  "printPC (run printSchedule) 0 = PrintReturned"
  "eventLog (ui (run printSchedule)) = [EventPrintLines [''starting'', ''up'']]"
  by code_simp+

text \<open>
  Claim C5 fails on the code. \<open>Sync\<close> is documented to block until all previously
  emitted events are processed by the engine, yet its first statement returns when
  \<open>closed\<close> is set, and \<open>Close\<close> sets \<open>closed\<close> before it stops the engine. Here a line
  is written, and its event is on the channel, before \<open>Close\<close> begins and before the
  controller calls \<open>Sync\<close>; when that call has returned and the Port record is
  written, the event is still on the channel: the engine has not handled it and the
  event log is empty.
\<close>

theorem sync_close_race:
  "eventsCh (ui (run (take 1 closeRaceSchedule))) = [EventPrintLines [''banner'']]
   \<and> syncPC (run (take 2 closeRaceSchedule)) 0 = SyncEntry
   \<and> syncPC (run closeRaceSchedule) 0 = SyncReturned
   \<and> portRecord (run closeRaceSchedule)
   \<and> eventsCh (ui (run closeRaceSchedule)) = [EventPrintLines [''banner'']]
   \<and> rendered (ui (run closeRaceSchedule)) = []
   \<and> eventLog (ui (run closeRaceSchedule)) = []"
  by code_simp

text \<open>
  The barrier is also missed without \<open>Close\<close>. \<open>Sync\<close> drains the writer's buffer and
  emits the line in two steps. Here a partial line is in the buffer when the
  controller calls \<open>Sync\<close>; a second call of \<open>Sync\<close> drains it first; the controller's
  call finds the buffer empty, runs through and returns, and the Port record is
  written, while the second call still holds the line: nothing is on the channel and
  the event log is empty.
\<close>

lemma sync_drain_race:
  "writerBuf (ui (run (take 1 drainRaceSchedule))) = ''starting''
   \<and> \<not> closed (ui (run drainRaceSchedule))
   \<and> syncPC (run drainRaceSchedule) 0 = SyncReturned
   \<and> portRecord (run drainRaceSchedule)
   \<and> syncPC (run drainRaceSchedule) 1 = SyncFlushing ''starting''
   \<and> eventsCh (ui (run drainRaceSchedule)) = []
   \<and> eventLog (ui (run drainRaceSchedule)) = []"
  by code_simp

end
